theory Spec2Isabelle
  imports Main "HOL-Library.Word" "HOL-Library.Sublist"
begin

section \<open>SciServer.CasJobs: a client of the CasJobs REST service\<close>

text \<open>
  The module \<^verbatim>\<open>src/py3/SciServer/CasJobs.py\<close> is embedded function by function. Every
  operation takes the collaborators it reads (\<open>env\<close>) and the state it can change (\<open>world\<close>) and
  returns its outcome, \<open>Inl\<close> for a raised exception, together with the world it leaves.
\<close>

subsection \<open>Text and bytes\<close>

text \<open>
  A Python 3 \<^verbatim>\<open>str\<close> is a sequence of Unicode code points, \<^verbatim>\<open>bytes\<close> a sequence of octets;
  \<^verbatim>\<open>bytes.decode()\<close> and \<^verbatim>\<open>str.encode()\<close> are strict UTF-8.
\<close>

type_synonym pystr = "nat list"
type_synonym bytes = "8 word list"

definition ustr :: "string \<Rightarrow> pystr" where
  "ustr s = map of_char s"

definition cont :: "8 word \<Rightarrow> bool" where
  "cont c = (0x80 \<le> unat c \<and> unat c \<le> 0xBF)"

definition low6 :: "8 word \<Rightarrow> nat" where
  "low6 c = unat c mod 64"

fun utf8_decode :: "bytes \<Rightarrow> pystr option" where
  "utf8_decode [] = Some []"
| "utf8_decode (b # bs) =
     (let n = unat b in
      if n < 0x80 then map_option ((#) n) (utf8_decode bs)
      else if 0xC2 \<le> n \<and> n \<le> 0xDF then
        (case bs of
           c1 # r \<Rightarrow>
             if cont c1
             then map_option ((#) ((n mod 32) * 64 + low6 c1)) (utf8_decode r)
             else None
         | _ \<Rightarrow> None)
      else if 0xE0 \<le> n \<and> n \<le> 0xEF then
        (case bs of
           c1 # c2 # r \<Rightarrow>
             if cont c1 \<and> cont c2 \<and> (if n = 0xE0 then 0xA0 \<le> unat c1 else True)
                \<and> (if n = 0xED then unat c1 \<le> 0x9F else True)
             then map_option ((#) ((n mod 16) * 4096 + low6 c1 * 64 + low6 c2)) (utf8_decode r)
             else None
         | _ \<Rightarrow> None)
      else if 0xF0 \<le> n \<and> n \<le> 0xF4 then
        (case bs of
           c1 # c2 # c3 # r \<Rightarrow>
             if cont c1 \<and> cont c2 \<and> cont c3
                \<and> (if n = 0xF0 then 0x90 \<le> unat c1 else True)
                \<and> (if n = 0xF4 then unat c1 \<le> 0x8F else True)
             then map_option
                    ((#) ((n mod 8) * 262144 + low6 c1 * 4096 + low6 c2 * 64 + low6 c3))
                    (utf8_decode r)
             else None
         | _ \<Rightarrow> None)
      else None)"

fun utf8_encode :: "pystr \<Rightarrow> bytes option" where
  "utf8_encode [] = Some []"
| "utf8_encode (c # cs) =
     (if c < 0x80 then map_option ((#) (of_nat c)) (utf8_encode cs)
      else if c < 0x800 then
        map_option ((@) [of_nat (0xC0 + c div 64), of_nat (0x80 + c mod 64)]) (utf8_encode cs)
      else if c < 0x10000 then
        (if 0xD800 \<le> c \<and> c \<le> 0xDFFF then None
         else map_option
                ((@) [of_nat (0xE0 + c div 4096), of_nat (0x80 + c div 64 mod 64),
                      of_nat (0x80 + c mod 64)])
                (utf8_encode cs))
      else if c < 0x110000 then
        map_option
          ((@) [of_nat (0xF0 + c div 262144), of_nat (0x80 + c div 4096 mod 64),
                of_nat (0x80 + c div 64 mod 64), of_nat (0x80 + c mod 64)])
          (utf8_encode cs)
      else None)"

text \<open>\<^verbatim>\<open>str(n)\<close> for an integer: its decimal digits, with a minus sign when negative.\<close>

fun digits :: "nat \<Rightarrow> pystr" where
  "digits n = (if n < 10 then [48 + n] else digits (n div 10) @ [48 + n mod 10])"

declare digits.simps [simp del]

definition str_int :: "int \<Rightarrow> pystr" where
  "str_int i = (if i < 0 then 45 # digits (nat (- i)) else digits (nat i))"

subsection \<open>Python values, exceptions, frames\<close>

text \<open>
  The values \<^verbatim>\<open>json.loads\<close> produces. A float keeps the text of its literal: floating point
  arithmetic is left to the interpreter (\<open>float_int\<close>, \<open>str_other\<close> below).
\<close>

datatype pyval =
    PNone
  | PBool bool
  | PInt int
  | PFloat pystr
  | PStr pystr
  | PList "pyval list"
  | PDict "(pystr \<times> pyval) list"

datatype error =
    Exception pystr
  | TypeError
  | ValueError
  | KeyError
  | IndexError
  | AttributeError
  | UnicodeDecodeError
  | UnicodeEncodeError
  | LibraryError pystr

text \<open>
  A pandas frame as far as this module touches it: the name of its row index, the index
  entries, the column labels and the rows of cells.
\<close>

record frame =
  index_name :: pyval
  index_vals :: "pyval list"
  columns :: "pyval list"
  rows :: "pyval list list"

text \<open>
  In the interpreter a frame is an object that refers to its row index, and the index is an
  object of its own, with the attribute \<^verbatim>\<open>name\<close>; several frames can refer to the same
  index object. Objects are kept in a store, by address.
\<close>

record index_obj =
  ix_name :: pyval
  ix_entries :: "pyval list"

record frame_obj =
  index_at :: nat
  obj_columns :: "pyval list"
  obj_rows :: "pyval list list"

subsection \<open>HTTP, collaborators and state\<close>

datatype http_method = GET | POST | PUT

record request =
  rq_method :: http_method
  rq_url :: pystr
  rq_headers :: "(pystr \<times> pystr) list"
  rq_data :: "bytes option"

record response =
  status_code :: int
  content :: bytes

text \<open>
  What the module reads and never changes: the \<^verbatim>\<open>Authentication\<close> and \<^verbatim>\<open>Config\<close> modules, the
  remote service behind \<^verbatim>\<open>requests\<close> (its answer may depend on the requests made so far), and
  the library functions of \<^verbatim>\<open>json\<close>, \<^verbatim>\<open>pandas\<close> and the interpreter that are not modelled here.
\<close>

record env =
  getToken :: "pystr option"
  getKeystoneUserWithToken :: "pystr \<Rightarrow> error + pystr"
  CasJobsRESTUri :: pystr
  isSciServerComputeEnvironment :: bool
  server :: "request list \<Rightarrow> request \<Rightarrow> error + response"
  json_loads :: "pystr \<Rightarrow> pyval option"
  json_dumps :: "pyval \<Rightarrow> pystr"
  int_of_str :: "pystr \<Rightarrow> int option"
  float_int :: "pystr \<Rightarrow> error + int"
  str_other :: "pyval \<Rightarrow> pystr"
  pandas_DataFrame :: "pyval \<Rightarrow> pyval \<Rightarrow> error + frame"
  pandas_read_csv :: "pystr \<Rightarrow> int option \<Rightarrow> error + frame"
  as_matrix :: "frame \<Rightarrow> error + pyval"
  pandas_to_csv :: "frame \<Rightarrow> pystr"
  open_error :: "pystr \<Rightarrow> error option"

text \<open>
  What the module changes: the frame and index objects of the caller, the requests sent, the
  lines printed, the seconds slept and the local files.
\<close>

record world =
  frame_objs :: "nat \<Rightarrow> frame_obj"
  indexes :: "nat \<Rightarrow> index_obj"
  net_log :: "request list"
  stdout :: "pystr list"
  slept :: "nat list"
  files :: "pystr \<Rightarrow> bytes option"

definition requests_send :: "env \<Rightarrow> request \<Rightarrow> world \<Rightarrow> (error + response) \<times> world" where
  "requests_send env rq w = (server env (net_log w) rq, w\<lparr>net_log := net_log w @ [rq]\<rparr>)"

text \<open>The frame behind a reference, as the library reads it.\<close>

definition frame_of :: "world \<Rightarrow> nat \<Rightarrow> frame" where
  "frame_of w r =
     \<lparr>index_name = ix_name (indexes w (index_at (frame_objs w r))),
      index_vals = ix_entries (indexes w (index_at (frame_objs w r))),
      columns = obj_columns (frame_objs w r),
      rows = obj_rows (frame_objs w r)\<rparr>"

definition print :: "pystr \<Rightarrow> world \<Rightarrow> world" where
  "print s w = w\<lparr>stdout := stdout w @ [s]\<rparr>"

definition sleep :: "nat \<Rightarrow> world \<Rightarrow> world" where
  "sleep n w = w\<lparr>slept := slept w @ [n]\<rparr>"

subsection \<open>Subscripts and conversions of the interpreter\<close>

text \<open>\<^verbatim>\<open>v[k]\<close> for a string key, and \<^verbatim>\<open>v[0]\<close>.\<close>

fun subscript_key :: "pyval \<Rightarrow> pystr \<Rightarrow> error + pyval" where
  "subscript_key (PDict kvs) k = (case map_of kvs k of None \<Rightarrow> Inl KeyError | Some v \<Rightarrow> Inr v)"
| "subscript_key _ k = Inl TypeError"

fun subscript_zero :: "pyval \<Rightarrow> error + pyval" where
  "subscript_zero (PList xs) = (case xs of [] \<Rightarrow> Inl IndexError | x # _ \<Rightarrow> Inr x)"
| "subscript_zero (PStr s) = (case s of [] \<Rightarrow> Inl IndexError | c # _ \<Rightarrow> Inr (PStr [c]))"
| "subscript_zero (PDict kvs) = Inl KeyError"
| "subscript_zero _ = Inl TypeError"

fun py_int :: "env \<Rightarrow> pyval \<Rightarrow> error + int" where
  "py_int env (PInt n) = Inr n"
| "py_int env (PBool b) = Inr (if b then 1 else 0)"
| "py_int env (PStr s) = (case int_of_str env s of None \<Rightarrow> Inl ValueError | Some n \<Rightarrow> Inr n)"
| "py_int env (PFloat x) = float_int env x"
| "py_int env _ = Inl TypeError"

fun py_str :: "env \<Rightarrow> pyval \<Rightarrow> pystr" where
  "py_str env (PInt n) = str_int n"
| "py_str env (PStr s) = s"
| "py_str env PNone = ustr ''None''"
| "py_str env (PBool b) = (if b then ustr ''True'' else ustr ''False'')"
| "py_str env v = str_other env v"

subsection \<open>The operations of the module\<close>

definition not_logged_in :: error where
  "not_logged_in = Exception (ustr ''User token is not defined. First log into SciServer.'')"

text \<open>
  Every request of the module is followed by the same two lines,
  \<^verbatim>\<open>if response.status_code != 200: raise Exception(msg + str(response.status_code) + ":\n" + response.content.decode())\<close>.
  \<open>http_failure\<close> is the exception they raise (decoding the body is part of building the
  message and may itself raise), \<open>call\<close> the request together with that check.
\<close>

definition http_failure :: "pystr \<Rightarrow> response \<Rightarrow> error" where
  "http_failure msg r =
     (case utf8_decode (content r) of
        None \<Rightarrow> UnicodeDecodeError
      | Some body \<Rightarrow> Exception (msg @ str_int (status_code r) @ ustr '':\<newline>'' @ body))"

definition call :: "env \<Rightarrow> request \<Rightarrow> pystr \<Rightarrow> world \<Rightarrow> (error + response) \<times> world" where
  "call env rq msg w =
     (case requests_send env rq w of
        (Inl e, w1) \<Rightarrow> (Inl e, w1)
      | (Inr r, w1) \<Rightarrow>
          if status_code r \<noteq> 200 then (Inl (http_failure msg r), w1) else (Inr r, w1))"

text \<open>\<^verbatim>\<open>json.loads(response.content.decode())\<close>\<close>

definition loads_content :: "env \<Rightarrow> response \<Rightarrow> error + pyval" where
  "loads_content env r =
     (case utf8_decode (content r) of
        None \<Rightarrow> Inl UnicodeDecodeError
      | Some body \<Rightarrow>
          (case json_loads env body of None \<Rightarrow> Inl ValueError | Some j \<Rightarrow> Inr j))"

text \<open>\<^verbatim>\<open>getSchemaName\<close> (lines 13 to 36).\<close>

definition schema_request :: "env \<Rightarrow> pystr \<Rightarrow> pystr \<Rightarrow> request" where
  "schema_request env token keystoneUserId =
     \<lparr>rq_method = GET,
      rq_url = CasJobsRESTUri env @ ustr ''/users/'' @ keystoneUserId,
      rq_headers = [(ustr ''X-Auth-Token'', token),
                    (ustr ''Content-Type'', ustr ''application/json'')],
      rq_data = None\<rparr>"

definition getSchemaName :: "env \<Rightarrow> world \<Rightarrow> (error + pystr) \<times> world" where
  "getSchemaName env w =
     (case getToken env of
        None \<Rightarrow> (Inl not_logged_in, w)
      | Some token \<Rightarrow>
          if token = [] then (Inl not_logged_in, w)
          else
            (case getKeystoneUserWithToken env token of
               Inl e \<Rightarrow> (Inl e, w)
             | Inr keystoneUserId \<Rightarrow>
                 (case call env (schema_request env token keystoneUserId)
                         (ustr ''Error when getting schema name. Http Response from CasJobs API returned status code '')
                         w of
                    (Inl e, w1) \<Rightarrow> (Inl e, w1)
                  | (Inr getResponse, w1) \<Rightarrow>
                      (case loads_content env getResponse of
                         Inl e \<Rightarrow> (Inl e, w1)
                       | Inr jsonResponse \<Rightarrow>
                           (case subscript_key jsonResponse (ustr ''WebServicesId'') of
                              Inl e \<Rightarrow> (Inl e, w1)
                            | Inr wsid \<Rightarrow> (Inr (ustr ''wsid_'' @ py_str env wsid), w1))))))"

text \<open>\<^verbatim>\<open>getTables\<close> (lines 39 to 67).\<close>

definition tables_request :: "env \<Rightarrow> pystr \<Rightarrow> pystr \<Rightarrow> request" where
  "tables_request env token context =
     \<lparr>rq_method = GET,
      rq_url = CasJobsRESTUri env @ ustr ''/contexts/'' @ context @ ustr ''/Tables'',
      rq_headers = [(ustr ''X-Auth-Token'', token),
                    (ustr ''Content-Type'', ustr ''application/json'')],
      rq_data = None\<rparr>"

definition getTables :: "env \<Rightarrow> pystr \<Rightarrow> world \<Rightarrow> (error + pyval) \<times> world" where
  "getTables env context w =
     (case getToken env of
        None \<Rightarrow> (Inl not_logged_in, w)
      | Some token \<Rightarrow>
          if token = [] then (Inl not_logged_in, w)
          else
            (case call env (tables_request env token context)
                    (ustr ''Error when getting table description from database context ''
                       @ context
                       @ ustr ''.\<newline>Http Response from CasJobs API returned status code '')
                    w of
               (Inl e, w1) \<Rightarrow> (Inl e, w1)
             | (Inr getResponse, w1) \<Rightarrow> (loads_content env getResponse, w1)))"

text \<open>
  \<^verbatim>\<open>executeQuery\<close> (lines 70 to 132). Its result is a \<^verbatim>\<open>StringIO\<close>, a frame, a \<^verbatim>\<open>str\<close> or parsed JSON.
  \<open>acceptHeader_of\<close> is the first \<^verbatim>\<open>if\<close> chain (\<open>None\<close> where it raises), \<open>query_request\<close> the
  request that is posted (the token header is added only when there is a token),
  \<open>query_result\<close> the second \<^verbatim>\<open>if\<close> chain, on the decoded body.
\<close>

datatype qresult = RStringIO pystr | RFrame frame | RStr pystr | RJson pyval

definition illegal_format :: "pystr \<Rightarrow> error" where
  "illegal_format format =
     Exception (ustr ''Error when executing query. Illegal format parameter specification: ''
                  @ format)"

definition acceptHeader_of :: "pystr \<Rightarrow> pystr option" where
  "acceptHeader_of format =
     (if format = ustr ''pandas'' \<or> format = ustr ''json''
        then Some (ustr ''application/json+array'')
      else if format = ustr ''csv'' \<or> format = ustr ''readable''
        then Some (ustr ''text/plain'')
      else if format = ustr ''fits'' then Some (ustr ''application/fits'')
      else None)"

definition query_body :: "env \<Rightarrow> pystr \<Rightarrow> pystr \<Rightarrow> bytes option" where
  "query_body env sql TaskName =
     utf8_encode (json_dumps env
        (PDict [(ustr ''Query'', PStr sql), (ustr ''TaskName'', PStr TaskName)]))"

definition query_request :: "env \<Rightarrow> pystr \<Rightarrow> pystr \<Rightarrow> bytes \<Rightarrow> request" where
  "query_request env context acceptHeader data =
     \<lparr>rq_method = POST,
      rq_url = CasJobsRESTUri env @ ustr ''/contexts/'' @ context @ ustr ''/query'',
      rq_headers =
        (let headers = [(ustr ''Content-Type'', ustr ''application/json''),
                        (ustr ''Accept'', acceptHeader)]
         in case getToken env of
              None \<Rightarrow> headers
            | Some token \<Rightarrow>
                if token \<noteq> [] then headers @ [(ustr ''X-Auth-Token'', token)] else headers),
      rq_data = Some data\<rparr>"

definition result_frame :: "env \<Rightarrow> pyval \<Rightarrow> error + qresult" where
  "result_frame env r =
     (case subscript_key r (ustr ''Result'') of
        Inl e \<Rightarrow> Inl e
      | Inr res \<Rightarrow>
     (case subscript_zero res of
        Inl e \<Rightarrow> Inl e
      | Inr res0 \<Rightarrow>
     (case subscript_key res0 (ustr ''Data'') of
        Inl e \<Rightarrow> Inl e
      | Inr d \<Rightarrow>
     (case subscript_key res0 (ustr ''Columns'') of
        Inl e \<Rightarrow> Inl e
      | Inr c \<Rightarrow>
     (case pandas_DataFrame env d c of
        Inl e \<Rightarrow> Inl e
      | Inr fr \<Rightarrow> Inr (RFrame fr))))))"

definition query_result :: "env \<Rightarrow> pystr \<Rightarrow> pystr \<Rightarrow> error + qresult" where
  "query_result env format r =
     (if format = ustr ''readable'' then Inr (RStringIO r)
      else if format = ustr ''pandas'' then
        (case json_loads env r of None \<Rightarrow> Inl ValueError | Some j \<Rightarrow> result_frame env j)
      else if format = ustr ''csv'' then Inr (RStr r)
      else if format = ustr ''json'' then
        (case json_loads env r of None \<Rightarrow> Inl ValueError | Some j \<Rightarrow> Inr (RJson j))
      else if format = ustr ''fits'' then Inr (RStringIO r)
      else Inl (illegal_format format))"

definition executeQuery ::
  "env \<Rightarrow> pystr \<Rightarrow> pystr \<Rightarrow> pystr \<Rightarrow> world \<Rightarrow> (error + qresult) \<times> world" where
  "executeQuery env sql context format w =
     (case acceptHeader_of format of
        None \<Rightarrow> (Inl (illegal_format format), w)
      | Some acceptHeader \<Rightarrow>
          (case query_body env sql
                  (if isSciServerComputeEnvironment env
                   then ustr ''Compute.SciScript-Python.CasJobs.executeQuery''
                   else ustr ''SciScript-Python.CasJobs.executeQuery'') of
             None \<Rightarrow> (Inl UnicodeEncodeError, w)
           | Some data \<Rightarrow>
               (case call env (query_request env context acceptHeader data)
                       (ustr ''Error when executing query. Http Response from CasJobs API returned status code '')
                       w of
                  (Inl e, w1) \<Rightarrow> (Inl e, w1)
                | (Inr postResponse, w1) \<Rightarrow>
                    (case utf8_decode (content postResponse) of
                       None \<Rightarrow> (Inl UnicodeDecodeError, w1)
                     | Some r \<Rightarrow> (query_result env format r, w1)))))"

text \<open>\<^verbatim>\<open>submitJob\<close> (lines 134 to 171).\<close>

definition job_request :: "env \<Rightarrow> pystr \<Rightarrow> pystr \<Rightarrow> bytes \<Rightarrow> request" where
  "job_request env token context data =
     \<lparr>rq_method = PUT,
      rq_url = CasJobsRESTUri env @ ustr ''/contexts/'' @ context @ ustr ''/jobs'',
      rq_headers = [(ustr ''Content-Type'', ustr ''application/json''),
                    (ustr ''Accept'', ustr ''text/plain''),
                    (ustr ''X-Auth-Token'', token)],
      rq_data = Some data\<rparr>"

definition submitJob :: "env \<Rightarrow> pystr \<Rightarrow> pystr \<Rightarrow> world \<Rightarrow> (error + int) \<times> world" where
  "submitJob env sql context w =
     (case getToken env of
        None \<Rightarrow> (Inl not_logged_in, w)
      | Some token \<Rightarrow>
          if token = [] then (Inl not_logged_in, w)
          else
            (case query_body env sql
                    (if isSciServerComputeEnvironment env
                     then ustr ''Compute.SciScript-Python.CasJobs.submitJob''
                     else ustr ''SciScript-Python.CasJobs.submitJob'') of
               None \<Rightarrow> (Inl UnicodeEncodeError, w)
             | Some data \<Rightarrow>
                 (case call env (job_request env token context data)
                         (ustr ''Error when submitting a job. Http Response from CasJobs API returned status code '')
                         w of
                    (Inl e, w1) \<Rightarrow> (Inl e, w1)
                  | (Inr putResponse, w1) \<Rightarrow>
                      (case utf8_decode (content putResponse) of
                         None \<Rightarrow> (Inl UnicodeDecodeError, w1)
                       | Some body \<Rightarrow>
                           (case int_of_str env body of
                              None \<Rightarrow> (Inl ValueError, w1)
                            | Some jobid \<Rightarrow> (Inr jobid, w1))))))"

text \<open>\<^verbatim>\<open>getJobStatus\<close> (lines 174 to 198).\<close>

definition status_request :: "env \<Rightarrow> pystr \<Rightarrow> pyval \<Rightarrow> request" where
  "status_request env token jobid =
     \<lparr>rq_method = GET,
      rq_url = CasJobsRESTUri env @ ustr ''/jobs/'' @ py_str env jobid,
      rq_headers = [(ustr ''X-Auth-Token'', token),
                    (ustr ''Content-Type'', ustr ''application/json'')],
      rq_data = None\<rparr>"

definition getJobStatus :: "env \<Rightarrow> pyval \<Rightarrow> world \<Rightarrow> (error + pyval) \<times> world" where
  "getJobStatus env jobid w =
     (case getToken env of
        None \<Rightarrow> (Inl not_logged_in, w)
      | Some token \<Rightarrow>
          if token = [] then (Inl not_logged_in, w)
          else
            (case call env (status_request env token jobid)
                    (ustr ''Error when getting the status of job '' @ py_str env jobid
                       @ ustr ''.\<newline>Http Response from CasJobs API returned status code '')
                    w of
               (Inl e, w1) \<Rightarrow> (Inl e, w1)
             | (Inr postResponse, w1) \<Rightarrow> (loads_content env postResponse, w1)))"

text \<open>
  \<^verbatim>\<open>waitForJob\<close> (lines 201 to 238): the \<^verbatim>\<open>while not complete\<close> loop has no bound, so it is a partial function
  and \<open>None\<close> stands for a call that never returns. \<open>job_status\<close> is
  \<^verbatim>\<open>int(jobDesc["Status"])\<close>. The surrounding \<^verbatim>\<open>try\<close> re-raises what it catches.
\<close>

definition waitingStr :: pystr where
  "waitingStr = ustr ''Waiting...''"

definition backStr :: pystr where
  "backStr = replicate (length waitingStr) 8"

definition job_status :: "env \<Rightarrow> pyval \<Rightarrow> error + int" where
  "job_status env jobDesc =
     (case subscript_key jobDesc (ustr ''Status'') of
        Inl e \<Rightarrow> Inl e
      | Inr st \<Rightarrow> py_int env st)"

partial_function (option) waitForJob_loop ::
  "env \<Rightarrow> pyval \<Rightarrow> bool \<Rightarrow> world \<Rightarrow> ((error + pyval) \<times> world) option" where
  "waitForJob_loop env jobid verbose w =
     (case getJobStatus env jobid
             (if verbose then print waitingStr (print backStr w) else w) of
        (Inl e, w2) \<Rightarrow> Some (Inl e, w2)
      | (Inr jobDesc, w2) \<Rightarrow>
          (case job_status env jobDesc of
             Inl e \<Rightarrow> Some (Inl e, w2)
           | Inr jobStatus \<Rightarrow>
               if jobStatus = 3 \<or> jobStatus = 4 \<or> jobStatus = 5
               then Some (Inr jobDesc,
                          if verbose then print (ustr ''Done!'') (print backStr w2) else w2)
               else waitForJob_loop env jobid verbose (sleep 2 w2)))"

definition waitForJob ::
  "env \<Rightarrow> pyval \<Rightarrow> bool \<Rightarrow> world \<Rightarrow> ((error + pyval) \<times> world) option" where
  "waitForJob env jobid verbose w =
     waitForJob_loop env jobid verbose (if verbose then print waitingStr w else w)"

text \<open>
  The polls of \<open>waitForJob\<close>: \<open>poll_world env jobid w k\<close> is the world after \<open>k\<close> calls of
  \<open>getJobStatus\<close> made from \<open>w\<close>, and \<open>poll env jobid w k\<close> what the next call returns there.
  A status is terminal when it is 3, 4 or 5.
\<close>

fun poll_world :: "env \<Rightarrow> pyval \<Rightarrow> world \<Rightarrow> nat \<Rightarrow> world" where
  "poll_world env jobid w 0 = w"
| "poll_world env jobid w (Suc k) = snd (getJobStatus env jobid (poll_world env jobid w k))"

definition poll :: "env \<Rightarrow> pyval \<Rightarrow> world \<Rightarrow> nat \<Rightarrow> error + pyval" where
  "poll env jobid w k = fst (getJobStatus env jobid (poll_world env jobid w k))"

definition terminal :: "int \<Rightarrow> bool" where
  "terminal s = (s = 3 \<or> s = 4 \<or> s = 5)"

text \<open>
  \<^verbatim>\<open>getFitsFileFromQuery\<close> (lines 241 to 264) and the local files it writes.
  \<^verbatim>\<open>open(fileName, "w+b")\<close> creates the file or truncates it; \<^verbatim>\<open>write\<close> on a
  file opened in binary mode takes bytes and raises \<^verbatim>\<open>TypeError\<close> for a \<^verbatim>\<open>str\<close>.
\<close>

datatype pydata = DStr pystr | DBytes bytes

definition open_wb :: "env \<Rightarrow> pystr \<Rightarrow> world \<Rightarrow> (error + unit) \<times> world" where
  "open_wb env fileName w =
     (case open_error env fileName of
        Some e \<Rightarrow> (Inl e, w)
      | None \<Rightarrow> (Inr (), w\<lparr>files := (files w)(fileName \<mapsto> [])\<rparr>))"

definition file_write :: "pystr \<Rightarrow> pydata \<Rightarrow> world \<Rightarrow> (error + unit) \<times> world" where
  "file_write fileName d w =
     (case d of
        DStr _ \<Rightarrow> (Inl TypeError, w)
      | DBytes b \<Rightarrow>
          (Inr (), w\<lparr>files := (files w)(fileName \<mapsto>
                                   (case files w fileName of None \<Rightarrow> b | Some old \<Rightarrow> old @ b))\<rparr>))"

fun read :: "qresult \<Rightarrow> error + pydata" where
  "read (RStringIO s) = Inr (DStr s)"
| "read _ = Inl AttributeError"

definition getFitsFileFromQuery ::
  "env \<Rightarrow> pystr \<Rightarrow> pystr \<Rightarrow> pystr \<Rightarrow> world \<Rightarrow> (error + bool) \<times> world" where
  "getFitsFileFromQuery env fileName queryString context w =
     (case executeQuery env queryString context (ustr ''fits'') w of
        (Inl e, w1) \<Rightarrow> (Inl e, w1)
      | (Inr fitsResponse, w1) \<Rightarrow>
          (case open_wb env fileName w1 of
             (Inl e, w2) \<Rightarrow> (Inl e, w2)
           | (Inr theFile, w2) \<Rightarrow>
               (case read fitsResponse of
                  Inl e \<Rightarrow> (Inl e, w2)
                | Inr d \<Rightarrow>
                    (case file_write fileName d w2 of
                       (Inl e, w3) \<Rightarrow> (Inl e, w3)
                     | (Inr u, w3) \<Rightarrow> (Inr True, w3)))))"

text \<open>\<^verbatim>\<open>getPandasDataFrameFromQuery\<close> and \<^verbatim>\<open>getNumpyArrayFromQuery\<close> (lines 267 to 310); \<^verbatim>\<open>read_csv\<close> and \<^verbatim>\<open>as_matrix\<close> are pandas' own.\<close>

fun readable_text :: "qresult \<Rightarrow> error + pystr" where
  "readable_text (RStringIO s) = Inr s"
| "readable_text _ = Inl TypeError"

definition getPandasDataFrameFromQuery ::
  "env \<Rightarrow> pystr \<Rightarrow> pystr \<Rightarrow> int option \<Rightarrow> world \<Rightarrow> (error + frame) \<times> world" where
  "getPandasDataFrameFromQuery env queryString context index_col w =
     (case executeQuery env queryString context (ustr ''readable'') w of
        (Inl e, w1) \<Rightarrow> (Inl e, w1)
      | (Inr cvsResponse, w1) \<Rightarrow>
          (case readable_text cvsResponse of
             Inl e \<Rightarrow> (Inl e, w1)
           | Inr s \<Rightarrow> (pandas_read_csv env s index_col, w1)))"

definition getNumpyArrayFromQuery ::
  "env \<Rightarrow> pystr \<Rightarrow> pystr \<Rightarrow> world \<Rightarrow> (error + pyval) \<times> world" where
  "getNumpyArrayFromQuery env queryString context w =
     (case getPandasDataFrameFromQuery env queryString context None w of
        (Inl e, w1) \<Rightarrow> (Inl e, w1)
      | (Inr dataFrame, w1) \<Rightarrow> (as_matrix env dataFrame, w1))"

text \<open>\<^verbatim>\<open>uploadCSVDataToTable\<close> (lines 338 to 368).\<close>

definition upload_request :: "env \<Rightarrow> pystr \<Rightarrow> bytes \<Rightarrow> pystr \<Rightarrow> pystr \<Rightarrow> request" where
  "upload_request env token CVSdata tableName context =
     \<lparr>rq_method = POST,
      rq_url = CasJobsRESTUri env @ ustr ''/contexts/'' @ context @ ustr ''/Tables/'' @ tableName,
      rq_headers = [(ustr ''X-Auth-Token'', token)],
      rq_data = Some CVSdata\<rparr>"

definition uploadCSVDataToTable ::
  "env \<Rightarrow> bytes \<Rightarrow> pystr \<Rightarrow> pystr \<Rightarrow> world \<Rightarrow> (error + bool) \<times> world" where
  "uploadCSVDataToTable env CVSdata tableName context w =
     (case getToken env of
        None \<Rightarrow> (Inl not_logged_in, w)
      | Some token \<Rightarrow>
          if token = [] then (Inl not_logged_in, w)
          else
            (case call env (upload_request env token CVSdata tableName context)
                    (ustr ''Error when uploading CSV data into CasJobs table '' @ tableName
                       @ ustr ''.\<newline>Http Response from CasJobs API returned status code '')
                    w of
               (Inl e, w1) \<Rightarrow> (Inl e, w1)
             | (Inr postResponse, w1) \<Rightarrow> (Inr True, w1)))"

text \<open>
  \<^verbatim>\<open>uploadPandasDataFrameToTable\<close> (lines 314 to 336) receives a reference to the caller's
  frame. The assignment to \<^verbatim>\<open>dataFrame.index.name\<close> changes the index object that the frame
  refers to; \<^verbatim>\<open>to_csv\<close> is pandas' own, called without arguments.
\<close>

definition uploadPandasDataFrameToTable ::
  "env \<Rightarrow> nat \<Rightarrow> pystr \<Rightarrow> pystr \<Rightarrow> world \<Rightarrow> (error + bool) \<times> world" where
  "uploadPandasDataFrameToTable env dataFrame tableName context w =
     (let ix = index_at (frame_objs w dataFrame);
          w1 = (if ix_name (indexes w ix) = PStr [] \<or> ix_name (indexes w ix) = PNone
                then w\<lparr>indexes := (indexes w)
                         (ix := (indexes w ix)\<lparr>ix_name := PStr (ustr ''index'')\<rparr>)\<rparr>
                else w)
      in case utf8_encode (pandas_to_csv env (frame_of w1 dataFrame)) of
           None \<Rightarrow> (Inl UnicodeEncodeError, w1)
         | Some sio \<Rightarrow> uploadCSVDataToTable env sio tableName context w1)"

text \<open>
  Notions used to state what a failed request leads to. \<open>answered env w out rq r\<close>: the
  operation that started in \<open>w\<close> and ended as \<open>out\<close> sent the single request \<open>rq\<close>, and the
  server answered it with the response \<open>r\<close>. \<open>reports res r\<close>: the outcome \<open>res\<close> is an
  exception: when the body of \<open>r\<close> is UTF-8 text, an \<^verbatim>\<open>Exception\<close> whose message contains
  the decimal status code of \<open>r\<close> and that text, and otherwise the \<^verbatim>\<open>UnicodeDecodeError\<close>
  of the decoding.
\<close>

definition answered ::
  "env \<Rightarrow> world \<Rightarrow> (error + 'a) \<times> world \<Rightarrow> request \<Rightarrow> response \<Rightarrow> bool" where
  "answered env w out rq r =
     (net_log (snd out) = net_log w @ [rq] \<and> server env (net_log w) rq = Inr r)"

definition reports :: "error + 'a \<Rightarrow> response \<Rightarrow> bool" where
  "reports res r =
     (case res of
        Inr _ \<Rightarrow> False
      | Inl e \<Rightarrow>
          (case utf8_decode (content r) of
             None \<Rightarrow> e = UnicodeDecodeError
           | Some body \<Rightarrow>
               (case e of
                  Exception m \<Rightarrow> sublist (str_int (status_code r)) m \<and> sublist body m
                | _ \<Rightarrow> False)))"

text \<open>
  Reading delimited text: \<open>csv_first_label t\<close> is the first field of the first line of \<open>t\<close>,
  for a field written without quotes. A label is plain when it is not empty and holds no
  comma, double quote or line break, so that a CSV writer leaves it as it is.
  \<open>writes_index_name_first\<close> is what the module relies on from \<^verbatim>\<open>DataFrame.to_csv()\<close>: the
  header line starts with the name of the index, when that name is a plain string.
\<close>

definition csv_first_label :: "pystr \<Rightarrow> pystr" where
  "csv_first_label t = takeWhile (\<lambda>c. c \<noteq> 44 \<and> c \<noteq> 10 \<and> c \<noteq> 13) t"

definition csv_special :: "nat \<Rightarrow> bool" where
  "csv_special c = (c = 44 \<or> c = 34 \<or> c = 10 \<or> c = 13)"

definition plain_label :: "pystr \<Rightarrow> bool" where
  "plain_label s = (s \<noteq> [] \<and> \<not> list_ex csv_special s)"

definition writes_index_name_first :: "env \<Rightarrow> bool" where
  "writes_index_name_first env =
     (\<forall>f s. index_name f = PStr s \<and> plain_label s
        \<longrightarrow> csv_first_label (pandas_to_csv env f) = s)"

subsection \<open>A test double of the collaborators\<close>

text \<open>
  Concrete collaborators for the examples below: a server given as a function, JSON written
  without escapes and read back from a table of known documents, an interpreter that
  parses no numbers from text, and a frame constructor that takes rows and labels as they
  come.
\<close>

text \<open>\<^verbatim>\<open>sep.join(xs)\<close>\<close>

fun join :: "pystr \<Rightarrow> pystr list \<Rightarrow> pystr" where
  "join sep [] = []"
| "join sep [x] = x"
| "join sep (x # y # ys) = x @ sep @ join sep (y # ys)"

fun json_text :: "pyval \<Rightarrow> pystr" where
  "json_text PNone = ustr ''null''"
| "json_text (PBool b) = (if b then ustr ''true'' else ustr ''false'')"
| "json_text (PInt n) = str_int n"
| "json_text (PFloat x) = x"
| "json_text (PStr s) = [34] @ s @ [34]"
| "json_text (PList xs) = [91] @ join (ustr '', '') (map json_text xs) @ [93]"
| "json_text (PDict kvs) =
     [123] @ join (ustr '', '')
               (map (\<lambda>kv. [34] @ fst kv @ [34] @ ustr '': '' @ json_text (snd kv)) kvs)
       @ [125]"

definition demo_frame :: "pyval \<Rightarrow> pyval \<Rightarrow> error + frame" where
  "demo_frame d c =
     (case (d, c) of
        (PList rs, PList cs) \<Rightarrow>
          Inr \<lparr>index_name = PNone, index_vals = map (\<lambda>i. PInt (int i)) [0..<length rs],
               columns = cs, rows = map (\<lambda>r. case r of PList xs \<Rightarrow> xs | _ \<Rightarrow> []) rs\<rparr>
      | _ \<Rightarrow> Inl ValueError)"

text \<open>
  A small CSV writer standing in for \<^verbatim>\<open>DataFrame.to_csv()\<close> in the examples: a header line
  made of the index name and the column labels, then one line per index entry; fields are
  separated by commas and quoted only when they hold a comma, a double quote or a line break;
  a line that is one empty field is written as two double quotes; lines end with a line feed.
\<close>

definition csv_quote :: "pystr \<Rightarrow> pystr" where
  "csv_quote s =
     (if list_ex csv_special s
      then [34] @ concat (map (\<lambda>c. if c = 34 then [34, 34] else [c]) s) @ [34]
      else s)"

fun csv_field :: "pyval \<Rightarrow> pystr" where
  "csv_field (PStr s) = csv_quote s"
| "csv_field PNone = []"
| "csv_field v = json_text v"

definition csv_line :: "pyval list \<Rightarrow> pystr" where
  "csv_line fs =
     (if map csv_field fs = [[]] then [34, 34] else join [44] (map csv_field fs)) @ [10]"

definition demo_to_csv :: "frame \<Rightarrow> pystr" where
  "demo_to_csv f =
     concat (map csv_line
               ((index_name f # columns f)
                # map (\<lambda>(i, r). i # r) (zip (index_vals f) (rows f))))"

definition demo_env ::
  "pystr option \<Rightarrow> (request list \<Rightarrow> request \<Rightarrow> error + response) \<Rightarrow> pyval list \<Rightarrow> env" where
  "demo_env tok srv docs =
     \<lparr>getToken = tok,
      getKeystoneUserWithToken = (\<lambda>t. Inr (ustr ''u1'')),
      CasJobsRESTUri = ustr ''http://casjobs'',
      isSciServerComputeEnvironment = False,
      server = srv,
      json_loads = (\<lambda>s. map_of (map (\<lambda>v. (json_text v, v)) docs) s),
      json_dumps = json_text,
      int_of_str = (\<lambda>s. None),
      float_int = (\<lambda>x. Inl ValueError),
      str_other = json_text,
      pandas_DataFrame = demo_frame,
      pandas_read_csv = (\<lambda>s i. Inl ValueError),
      as_matrix = (\<lambda>f. Inr (PList (map PList (rows f)))),
      pandas_to_csv = demo_to_csv,
      open_error = (\<lambda>f. None)\<rparr>"

text \<open>
  A world with nothing sent, printed or written yet. Every frame has one column, labelled
  with the Greek letter delta (code point 948), and one row holding 7. The frames at the
  addresses 0 and 1 share the index object 0; every other frame has an index object of its
  own. No index has a name. In \<open>named_world\<close> every index is named \<^verbatim>\<open>id\<close> instead.
\<close>

definition demo_world :: world where
  "demo_world =
     \<lparr>frame_objs = (\<lambda>r. \<lparr>index_at = (if r < 2 then 0 else r),
                           obj_columns = [PStr [948]], obj_rows = [[PInt 7]]\<rparr>),
      indexes = (\<lambda>a. \<lparr>ix_name = PNone, ix_entries = [PInt 0]\<rparr>),
      net_log = [], stdout = [], slept = [], files = (\<lambda>f. None)\<rparr>"

definition named_world :: world where
  "named_world =
     demo_world\<lparr>indexes := (\<lambda>a. \<lparr>ix_name = PStr (ustr ''id''), ix_entries = [PInt 0]\<rparr>)\<rparr>"

definition reply :: "int \<Rightarrow> string \<Rightarrow> error + response" where
  "reply code s = Inr \<lparr>status_code = code, content = map of_char s\<rparr>"

definition reply_json :: "int \<Rightarrow> pyval \<Rightarrow> error + response" where
  "reply_json code v = Inr \<lparr>status_code = code, content = map of_nat (json_text v)\<rparr>"

text \<open>
  A job whose successive polls report the statuses \<open>sts\<close> and then \<open>final\<close> for ever.
\<close>

definition status_server :: "int list \<Rightarrow> int \<Rightarrow> request list \<Rightarrow> request \<Rightarrow> error + response" where
  "status_server sts final log rq =
     reply_json 200
       (PDict [(ustr ''Status'',
                PInt (if length log < length sts then sts ! length log else final))])"

definition status_docs :: "pyval list" where
  "status_docs = map (\<lambda>i. PDict [(ustr ''Status'', PInt i)]) [1, 2, 3, 4, 5]"

text \<open>A server that answers every request with status 500 and the body \<^verbatim>\<open>boom\<close>.\<close>

definition boom :: response where
  "boom = \<lparr>status_code = 500, content = map of_char ''boom''\<rparr>"

definition boom_env :: env where
  "boom_env = demo_env (Some (ustr ''tok'')) (\<lambda>log rq. Inr boom) []"

text \<open>A job that is pending at its first two polls; the third request is answered by \<open>boom\<close>.\<close>

definition flaky_env :: env where
  "flaky_env =
     demo_env (Some (ustr ''tok''))
       (\<lambda>log rq. if length log < 2 then reply_json 200 (PDict [(ustr ''Status'', PInt 1)])
                  else Inr boom)
       status_docs"

section \<open>Properties\<close>

subsection \<open>Auxiliary facts\<close>

lemma call_eq:
  "call env rq msg w =
     (case server env (net_log w) rq of
        Inl e \<Rightarrow> Inl e
      | Inr r \<Rightarrow> if status_code r \<noteq> 200 then Inl (http_failure msg r) else Inr r,
      w\<lparr>net_log := net_log w @ [rq]\<rparr>)"
  by (simp add: call_def requests_send_def split: sum.split)

lemma format_distinct:
  "ustr ''fits'' \<noteq> ustr ''pandas''" "ustr ''fits'' \<noteq> ustr ''json''"
  "ustr ''fits'' \<noteq> ustr ''csv''" "ustr ''fits'' \<noteq> ustr ''readable''"
  "ustr ''csv'' \<noteq> ustr ''pandas''" "ustr ''csv'' \<noteq> ustr ''json''"
  "ustr ''csv'' \<noteq> ustr ''readable''" "ustr ''json'' \<noteq> ustr ''pandas''"
  "ustr ''json'' \<noteq> ustr ''readable''" "ustr ''readable'' \<noteq> ustr ''pandas''"
  "ustr ''pandas'' \<noteq> ustr ''readable''"
  by (simp_all add: ustr_def)

lemma demo_env_simps:
  "getToken (demo_env tok srv docs) = tok"
  "server (demo_env tok srv docs) = srv"
  "json_dumps (demo_env tok srv docs) = json_text"
  "json_loads (demo_env tok srv docs) = (\<lambda>s. map_of (map (\<lambda>v. (json_text v, v)) docs) s)"
  "isSciServerComputeEnvironment (demo_env tok srv docs) = False"
  "CasJobsRESTUri (demo_env tok srv docs) = ustr ''http://casjobs''"
  "open_error (demo_env tok srv docs) = (\<lambda>f. None)"
  "pandas_to_csv (demo_env tok srv docs) = demo_to_csv"
  "pandas_DataFrame (demo_env tok srv docs) = demo_frame"
  "getKeystoneUserWithToken (demo_env tok srv docs) = (\<lambda>t. Inr (ustr ''u1''))"
  "str_other (demo_env tok srv docs) = json_text"
  by (simp_all add: demo_env_def)

subsection \<open>The format of a query\<close>

text \<open>
  C4. For every sql string, context and world, \<open>executeQuery\<close> called with a format that is
  none of "pandas", "csv", "readable", "fits", "json" raises the "illegal format" exception,
  and the world, the log of requests in particular, is as it was: no request is sent.
\<close>

theorem executeQuery_illegal_format:
  assumes "format \<noteq> ustr ''pandas''" "format \<noteq> ustr ''csv''" "format \<noteq> ustr ''readable''"
    "format \<noteq> ustr ''fits''" "format \<noteq> ustr ''json''"
  shows "executeQuery env sql context format w =
           (Inl (Exception (ustr ''Error when executing query. Illegal format parameter specification: ''
                              @ format)), w)
         \<and> net_log (snd (executeQuery env sql context format w)) = net_log w"
  using assms by (simp add: executeQuery_def acceptHeader_of_def illegal_format_def)

theorem executeQuery_illegal_format_witness:
  "ustr ''xml'' \<noteq> ustr ''pandas'' \<and> ustr ''xml'' \<noteq> ustr ''csv'' \<and> ustr ''xml'' \<noteq> ustr ''readable''
   \<and> ustr ''xml'' \<noteq> ustr ''fits'' \<and> ustr ''xml'' \<noteq> ustr ''json''
   \<and> executeQuery (demo_env (Some (ustr ''tok'')) (\<lambda>log rq. reply 200 ''x'') [])
        (ustr ''select 1'') (ustr ''MyDB'') (ustr ''xml'') demo_world =
      (Inl (Exception (ustr ''Error when executing query. Illegal format parameter specification: xml'')),
       demo_world)
   \<and> net_log (snd (executeQuery (demo_env (Some (ustr ''tok'')) (\<lambda>log rq. reply 200 ''x'') [])
        (ustr ''select 1'') (ustr ''MyDB'') (ustr ''xml'') demo_world)) = net_log demo_world"
  using executeQuery_illegal_format
          [of "ustr ''xml''" "demo_env (Some (ustr ''tok'')) (\<lambda>log rq. reply 200 ''x'') []"
              "ustr ''select 1''" "ustr ''MyDB''" demo_world]
  by (simp add: ustr_def)

subsection \<open>Calls without a token\<close>

text \<open>
  Five operations check the token first: when it is \<^verbatim>\<open>None\<close> or empty they raise the "not
  logged in" exception and leave the world, the log of requests included, as it was.
\<close>

lemma token_checked_before_request:
  assumes "getToken env = None \<or> getToken env = Some []"
  shows "getSchemaName env w = (Inl not_logged_in, w)
       \<and> getTables env context w = (Inl not_logged_in, w)
       \<and> submitJob env sql context w = (Inl not_logged_in, w)
       \<and> getJobStatus env jobid w = (Inl not_logged_in, w)
       \<and> uploadCSVDataToTable env CVSdata tableName context w = (Inl not_logged_in, w)"
  using assms
  by (auto simp: getSchemaName_def getTables_def submitJob_def getJobStatus_def
      uploadCSVDataToTable_def)

text \<open>
  C1 (the code at a failing input). \<open>executeQuery\<close> is the one authenticated operation that
  does not make this check, although its docstring announces the exception: called without
  a token, with the format "csv" and a server that answers 200 with the body \<^verbatim>\<open>1\<close>, it sends
  one request, whose headers are \<^verbatim>\<open>Content-Type\<close> and \<^verbatim>\<open>Accept\<close> only, and returns the text.
\<close>

theorem executeQuery_without_token_sends:
  "getToken (demo_env None (\<lambda>log rq. reply 200 ''1'') []) = None
   \<and> fst (executeQuery (demo_env None (\<lambda>log rq. reply 200 ''1'') []) (ustr ''select 1'')
            (ustr ''MyDB'') (ustr ''csv'') demo_world) = Inr (RStr (ustr ''1''))
   \<and> length (net_log (snd (executeQuery (demo_env None (\<lambda>log rq. reply 200 ''1'') [])
            (ustr ''select 1'') (ustr ''MyDB'') (ustr ''csv'') demo_world))) = 1
   \<and> map fst (rq_headers (hd (net_log (snd (executeQuery
            (demo_env None (\<lambda>log rq. reply 200 ''1'') [])
            (ustr ''select 1'') (ustr ''MyDB'') (ustr ''csv'') demo_world)))))
      = [ustr ''Content-Type'', ustr ''Accept'']"
  by (simp add: executeQuery_def acceptHeader_of_def query_result_def query_body_def call_eq
      query_request_def demo_env_simps reply_def demo_world_def ustr_def str_int_def)

subsection \<open>Writing a query result to a FITS file\<close>

lemma executeQuery_fits_result:
  "case fst (executeQuery env sql context (ustr ''fits'') w) of
     Inl e \<Rightarrow> True | Inr q \<Rightarrow> (case q of RStringIO r \<Rightarrow> True | _ \<Rightarrow> False)"
  by (simp add: executeQuery_def acceptHeader_of_def query_result_def format_distinct call_eq
      split: option.split sum.split)

text \<open>
  \<open>executeQuery\<close> hands back a \<^verbatim>\<open>StringIO\<close> over the decoded text, so what
  \<open>getFitsFileFromQuery\<close> passes to \<^verbatim>\<open>write\<close> is a \<^verbatim>\<open>str\<close>, and the file is open in binary
  mode: the call never returns \<^verbatim>\<open>True\<close>.
\<close>

lemma getFitsFileFromQuery_never_returns:
  "fst (getFitsFileFromQuery env fileName queryString context w) \<noteq> Inr b"
  using executeQuery_fits_result [of env queryString "context" w]
  by (cases "executeQuery env queryString context (ustr ''fits'') w")
     (auto simp: getFitsFileFromQuery_def open_wb_def file_write_def
           split: option.splits sum.splits qresult.splits)

text \<open>
  C2 (the code at a failing input). The server answers the query with status 200 and the
  body \<^verbatim>\<open>SIMPLE\<close>: \<open>getFitsFileFromQuery\<close> sends one request, creates the file, raises
  \<^verbatim>\<open>TypeError\<close> at the write and leaves the file empty.
\<close>
theorem getFitsFileFromQuery_raises_TypeError:
  "fst (getFitsFileFromQuery (demo_env (Some (ustr ''tok'')) (\<lambda>log rq. reply 200 ''SIMPLE'') [])
       (ustr ''out.fits'') (ustr ''select 1'') (ustr ''MyDB'') demo_world) = Inl TypeError
   \<and> files (snd (getFitsFileFromQuery
                   (demo_env (Some (ustr ''tok'')) (\<lambda>log rq. reply 200 ''SIMPLE'') [])
                   (ustr ''out.fits'') (ustr ''select 1'') (ustr ''MyDB'') demo_world))
        (ustr ''out.fits'') = Some []
   \<and> length (net_log (snd (getFitsFileFromQuery
                   (demo_env (Some (ustr ''tok'')) (\<lambda>log rq. reply 200 ''SIMPLE'') [])
                   (ustr ''out.fits'') (ustr ''select 1'') (ustr ''MyDB'') demo_world))) = 1"
  by (simp add: getFitsFileFromQuery_def executeQuery_def acceptHeader_of_def query_result_def
      query_body_def call_eq open_wb_def file_write_def
      demo_env_simps reply_def demo_world_def ustr_def str_int_def)

subsection \<open>Waiting for a job\<close>

lemma getJobStatus_log:
  assumes "net_log w = net_log w'"
  shows "fst (getJobStatus env jobid w) = fst (getJobStatus env jobid w')
       \<and> net_log (snd (getJobStatus env jobid w)) = net_log (snd (getJobStatus env jobid w'))"
  using assms by (simp add: getJobStatus_def call_eq split: option.split sum.split)

lemma getJobStatus_keeps:
  "stdout (snd (getJobStatus env jobid w)) = stdout w
   \<and> slept (snd (getJobStatus env jobid w)) = slept w"
  by (simp add: getJobStatus_def call_eq split: option.split sum.split)

lemma poll_world_log:
  "net_log v = net_log v' \<Longrightarrow>
   net_log (poll_world env jobid v k) = net_log (poll_world env jobid v' k)"
proof (induction k)
  case 0
  then show ?case by simp
next
  case (Suc k)
  from getJobStatus_log [OF Suc.IH [OF Suc.prems], of env jobid] show ?case by simp
qed

lemma poll_log: "net_log v = net_log v' \<Longrightarrow> poll env jobid v k = poll env jobid v' k"
  unfolding poll_def using poll_world_log getJobStatus_log by blast

lemma poll_world_shift:
  "poll_world env jobid w (Suc k) = poll_world env jobid (snd (getJobStatus env jobid w)) k"
  by (induction k) simp_all

lemma poll_shift:
  assumes "net_log v = net_log (snd (getJobStatus env jobid w))"
  shows "poll env jobid v k = poll env jobid w (Suc k)"
proof -
  have "poll env jobid w (Suc k) = poll env jobid (snd (getJobStatus env jobid w)) k"
    unfolding poll_def by (simp only: poll_world_shift)
  with poll_log [OF assms] show ?thesis by simp
qed

lemma poll_world_shift_log:
  assumes "net_log v = net_log (snd (getJobStatus env jobid w))"
  shows "net_log (poll_world env jobid v k) = net_log (poll_world env jobid w (Suc k))"
  using poll_world_log [OF assms] by (simp only: poll_world_shift)

lemma loop_step:
  assumes "getJobStatus env jobid (if verbose then print waitingStr (print backStr w) else w)
             = (res, w2)"
  shows "waitForJob_loop env jobid verbose w =
     (case res of
        Inl e \<Rightarrow> Some (Inl e, w2)
      | Inr jobDesc \<Rightarrow>
          (case job_status env jobDesc of
             Inl e \<Rightarrow> Some (Inl e, w2)
           | Inr jobStatus \<Rightarrow>
               if terminal jobStatus
               then Some (Inr jobDesc,
                          if verbose then print (ustr ''Done!'') (print backStr w2) else w2)
               else waitForJob_loop env jobid verbose (sleep 2 w2)))"
  by (subst waitForJob_loop.simps) (simp add: assms terminal_def split: sum.split)

text \<open>The first poll, seen from the loop: it is poll 0 of the world the loop starts in.\<close>

lemma first_poll:
  assumes "getJobStatus env jobid (if verbose then print waitingStr (print backStr w) else w)
             = (res, w2)"
  shows "res = poll env jobid w 0"
    and "net_log w2 = net_log (snd (getJobStatus env jobid w))"
    and "slept w2 = slept w"
proof -
  let ?w1 = "if verbose then print waitingStr (print backStr w) else w"
  have same: "net_log ?w1 = net_log w" by (simp add: print_def)
  from getJobStatus_log [OF same, of env jobid] assms
  show "res = poll env jobid w 0" "net_log w2 = net_log (snd (getJobStatus env jobid w))"
    by (simp_all add: poll_def)
  from getJobStatus_keeps [of env jobid ?w1] assms
  show "slept w2 = slept w" by (simp add: print_def)
qed

lemma loop_returns:
  assumes "\<forall>k\<le>n. poll env jobid w k = Inr (d k) \<and> job_status env (d k) = Inr (s k)"
    and "terminal (s n)" and "\<forall>k<n. \<not> terminal (s k)"
  shows "\<exists>w'. waitForJob_loop env jobid verbose w = Some (Inr (d n), w')
             \<and> net_log w' = net_log (poll_world env jobid w (Suc n))
             \<and> slept w' = slept w @ replicate n 2"
  using assms
proof (induction n arbitrary: w d s)
  case 0
  obtain res w2 where
    g: "getJobStatus env jobid (if verbose then print waitingStr (print backStr w) else w)
          = (res, w2)"
    by (cases "getJobStatus env jobid (if verbose then print waitingStr (print backStr w) else w)")
  from 0 have p0: "poll env jobid w 0 = Inr (d 0)" "job_status env (d 0) = Inr (s 0)" by auto
  note fp = first_poll [OF g]
  have "waitForJob_loop env jobid verbose w
          = Some (Inr (d 0), if verbose then print (ustr ''Done!'') (print backStr w2) else w2)"
    using fp(1) p0 0(2) by (simp add: loop_step [OF g])
  moreover have "net_log (if verbose then print (ustr ''Done!'') (print backStr w2) else w2)
                   = net_log (poll_world env jobid w (Suc 0))"
    using fp(2) by (simp add: print_def)
  moreover have "slept (if verbose then print (ustr ''Done!'') (print backStr w2) else w2)
                   = slept w @ replicate 0 2"
    using fp(3) by (simp add: print_def)
  ultimately show ?case by blast
next
  case (Suc n)
  obtain res w2 where
    g: "getJobStatus env jobid (if verbose then print waitingStr (print backStr w) else w)
          = (res, w2)"
    by (cases "getJobStatus env jobid (if verbose then print waitingStr (print backStr w) else w)")
  from Suc.prems have p0: "poll env jobid w 0 = Inr (d 0)" "job_status env (d 0) = Inr (s 0)"
    and nt: "\<not> terminal (s 0)" by auto
  note fp = first_poll [OF g]
  let ?v = "sleep 2 w2"
  have vlog: "net_log ?v = net_log (snd (getJobStatus env jobid w))"
    using fp(2) by (simp add: sleep_def)
  have step: "waitForJob_loop env jobid verbose w = waitForJob_loop env jobid verbose ?v"
    using fp(1) p0 nt by (simp add: loop_step [OF g])
  have polls: "\<forall>k\<le>n. poll env jobid ?v k = Inr ((d \<circ> Suc) k)
                 \<and> job_status env ((d \<circ> Suc) k) = Inr ((s \<circ> Suc) k)"
    using Suc.prems(1) poll_shift [OF vlog] by simp
  have t: "terminal ((s \<circ> Suc) n)" using Suc.prems(2) by simp
  have nts: "\<forall>k<n. \<not> terminal ((s \<circ> Suc) k)" using Suc.prems(3) by simp
  from Suc.IH [OF polls t nts] obtain w' where
    r: "waitForJob_loop env jobid verbose ?v = Some (Inr ((d \<circ> Suc) n), w')"
    and l: "net_log w' = net_log (poll_world env jobid ?v (Suc n))"
    and s: "slept w' = slept ?v @ replicate n 2" by blast
  have "net_log w' = net_log (poll_world env jobid w (Suc (Suc n)))"
    using l poll_world_shift_log [OF vlog, of "Suc n"] by simp
  moreover have "slept w' = slept w @ replicate (Suc n) 2"
    using s fp(3) by (simp add: sleep_def replicate_append_same)
  ultimately show ?case using step r by simp
qed

lemmas loop_induct = waitForJob_loop.raw_induct [rotated 1, consumes 1, case_names step]

lemma loop_some_stops:
  assumes "waitForJob_loop env jobid verbose w = Some r"
  shows "\<exists>k. \<forall>d s. poll env jobid w k = Inr d \<longrightarrow> job_status env d = Inr s \<longrightarrow> terminal s"
  using assms
proof (induction rule: loop_induct)
  case (step loop env jobid verbose w r)
  obtain res w2 where
    g: "getJobStatus env jobid (if verbose then print waitingStr (print backStr w) else w)
          = (res, w2)"
    by (cases "getJobStatus env jobid (if verbose then print waitingStr (print backStr w) else w)")
  note fp = first_poll [OF g]
  show ?case
  proof (cases "\<exists>d s. poll env jobid w 0 = Inr d \<and> job_status env d = Inr s \<and> \<not> terminal s")
    case False
    then have "\<forall>d s. poll env jobid w 0 = Inr d \<longrightarrow> job_status env d = Inr s \<longrightarrow> terminal s"
      by blast
    then show ?thesis by blast
  next
    case True
    then obtain d s where p: "poll env jobid w 0 = Inr d" "job_status env d = Inr s"
      "\<not> terminal s" by blast
    have vlog: "net_log (sleep 2 w2) = net_log (snd (getJobStatus env jobid w))"
      using fp(2) by (simp add: sleep_def)
    from step(2) g fp(1) p have "loop env jobid verbose (sleep 2 w2) = Some r"
      by (simp add: terminal_def)
    from step(1) [OF this] obtain k where
      "\<forall>d s. poll env jobid (sleep 2 w2) k = Inr d \<longrightarrow> job_status env d = Inr s \<longrightarrow> terminal s"
      by blast
    then have "\<forall>d s. poll env jobid w (Suc k) = Inr d \<longrightarrow> job_status env d = Inr s \<longrightarrow> terminal s"
      by (simp add: poll_shift [OF vlog])
    then show ?thesis by blast
  qed
qed

lemma loop_verbose_irrelevant:
  assumes "waitForJob_loop env jobid verbose w = Some r" and "net_log w' = net_log w"
  shows "\<exists>r'. waitForJob_loop env jobid verbose' w' = Some r' \<and> fst r' = fst r
              \<and> net_log (snd r') = net_log (snd r)"
  using assms
proof (induction arbitrary: w' rule: loop_induct)
  case (step loop env jobid verbose w r)
  obtain res w2 where
    g: "getJobStatus env jobid (if verbose then print waitingStr (print backStr w) else w)
          = (res, w2)"
    by (cases "getJobStatus env jobid (if verbose then print waitingStr (print backStr w) else w)")
  obtain res' w2' where
    g': "getJobStatus env jobid (if verbose' then print waitingStr (print backStr w') else w')
          = (res', w2')"
    by (cases "getJobStatus env jobid (if verbose' then print waitingStr (print backStr w') else w')")
  note fp = first_poll [OF g] and fp' = first_poll [OF g']
  have same: "res' = res" using fp(1) fp'(1) poll_log [OF step(3)] by simp
  have log2: "net_log w2' = net_log w2"
    using fp(2) fp'(2) getJobStatus_log [OF step(3), of env jobid] by simp
  show ?case
  proof (cases res)
    case (Inl e)
    with step(2) g have "r = (Inl e, w2)" by simp
    moreover have "waitForJob_loop env jobid verbose' w' = Some (Inl e, w2')"
      using Inl same by (simp add: loop_step [OF g'])
    ultimately show ?thesis using log2 by simp
  next
    case (Inr jobDesc)
    show ?thesis
    proof (cases "job_status env jobDesc")
      case (Inl e)
      with step(2) g Inr have "r = (Inl e, w2)" by simp
      moreover have "waitForJob_loop env jobid verbose' w' = Some (Inl e, w2')"
        using Inl Inr same by (simp add: loop_step [OF g'])
      ultimately show ?thesis using log2 by simp
    next
      case st: (Inr jobStatus)
      show ?thesis
      proof (cases "terminal jobStatus")
        case True
        with step(2) g Inr st
        have "r = (Inr jobDesc, if verbose then print (ustr ''Done!'') (print backStr w2) else w2)"
          by (simp add: terminal_def)
        moreover have "waitForJob_loop env jobid verbose' w'
            = Some (Inr jobDesc, if verbose' then print (ustr ''Done!'') (print backStr w2') else w2')"
          using True st Inr same by (simp add: loop_step [OF g'])
        ultimately show ?thesis using log2 by (simp add: print_def)
      next
        case False
        with step(2) g Inr st have "loop env jobid verbose (sleep 2 w2) = Some r"
          by (simp add: terminal_def)
        moreover have "net_log (sleep 2 w2') = net_log (sleep 2 w2)"
          using log2 by (simp add: sleep_def)
        ultimately obtain r' where
          "waitForJob_loop env jobid verbose' (sleep 2 w2') = Some r'" "fst r' = fst r"
          "net_log (snd r') = net_log (snd r)"
          using step(1) by blast
        moreover have "waitForJob_loop env jobid verbose' w'
                         = waitForJob_loop env jobid verbose' (sleep 2 w2')"
          using False st Inr same by (simp add: loop_step [OF g'])
        ultimately show ?thesis by simp
      qed
    qed
  qed
qed

lemma getJobStatus_ok_log:
  assumes "fst (getJobStatus env jobid w) = Inr d"
  shows "length (net_log (snd (getJobStatus env jobid w))) = Suc (length (net_log w))"
proof -
  have "case fst (getJobStatus env jobid w) of
          Inl e \<Rightarrow> True
        | Inr d \<Rightarrow> length (net_log (snd (getJobStatus env jobid w))) = Suc (length (net_log w))"
    by (simp add: getJobStatus_def call_eq not_logged_in_def split: option.split sum.split)
  with assms show ?thesis by simp
qed

lemma poll_world_length:
  assumes "\<forall>k<n. \<exists>d. poll env jobid w k = Inr d"
  shows "length (net_log (poll_world env jobid w n)) = length (net_log w) + n"
  using assms
proof (induction n)
  case 0
  then show ?case by simp
next
  case (Suc n)
  then obtain d where "poll env jobid w n = Inr d" by blast
  from getJobStatus_ok_log [OF this [unfolded poll_def]] Suc show ?case by simp
qed

text \<open>
  C3. Let the polls made from the world \<open>w\<close> yield the status records \<open>d 0\<close>, \<open>d 1\<close>, ...,
  with integer statuses \<open>s 0\<close>, \<open>s 1\<close>, ... If poll \<open>n\<close> is the first whose status is 3, 4 or 5,
  \<open>waitForJob\<close> returns the record \<open>d n\<close> of that poll, having made exactly \<open>n + 1\<close> polls and
  slept 2 seconds after each of the \<open>n\<close> earlier ones. If no poll ever has a terminal status,
  \<open>waitForJob\<close> does not return.
\<close>

theorem waitForJob_first_terminal_poll:
  "((\<forall>k\<le>n. poll env jobid w k = Inr (d k) \<and> job_status env (d k) = Inr (s k))
      \<and> terminal (s n) \<and> (\<forall>k<n. \<not> terminal (s k))
     \<longrightarrow> (\<exists>w'. waitForJob env jobid verbose w = Some (Inr (d n), w')
              \<and> net_log w' = net_log (poll_world env jobid w (Suc n))
              \<and> length (net_log w') = length (net_log w) + Suc n
              \<and> slept w' = slept w @ replicate n 2))
   \<and> ((\<forall>k. poll env jobid w k = Inr (d k) \<and> job_status env (d k) = Inr (s k)
            \<and> \<not> terminal (s k))
     \<longrightarrow> waitForJob env jobid verbose w = None)"
proof (intro conjI impI)
  let ?w0 = "if verbose then print waitingStr w else w"
  have same: "net_log ?w0 = net_log w" "slept ?w0 = slept w" by (simp_all add: print_def)
  {
    assume h: "(\<forall>k\<le>n. poll env jobid w k = Inr (d k) \<and> job_status env (d k) = Inr (s k))
      \<and> terminal (s n) \<and> (\<forall>k<n. \<not> terminal (s k))"
    then have polls: "\<forall>k\<le>n. poll env jobid ?w0 k = Inr (d k) \<and> job_status env (d k) = Inr (s k)"
      using poll_log [OF same(1)] by simp
    from loop_returns [OF polls, of verbose] h obtain w' where
      r: "waitForJob_loop env jobid verbose ?w0 = Some (Inr (d n), w')"
      and l: "net_log w' = net_log (poll_world env jobid ?w0 (Suc n))"
      and sl: "slept w' = slept ?w0 @ replicate n 2" by blast
    have l': "net_log w' = net_log (poll_world env jobid w (Suc n))"
      unfolding l by (rule poll_world_log [OF same(1)])
    have "\<forall>k<Suc n. \<exists>d. poll env jobid w k = Inr d" using h by (simp add: less_Suc_eq_le)
    from poll_world_length [OF this] l'
    have "length (net_log w') = length (net_log w) + Suc n" by simp
    with r l' sl same(2)
    show "\<exists>w'. waitForJob env jobid verbose w = Some (Inr (d n), w')
              \<and> net_log w' = net_log (poll_world env jobid w (Suc n))
              \<and> length (net_log w') = length (net_log w) + Suc n
              \<and> slept w' = slept w @ replicate n 2"
      by (simp add: waitForJob_def)
  }
  {
    assume h: "\<forall>k. poll env jobid w k = Inr (d k) \<and> job_status env (d k) = Inr (s k)
            \<and> \<not> terminal (s k)"
    show "waitForJob env jobid verbose w = None"
    proof (rule ccontr)
      assume "waitForJob env jobid verbose w \<noteq> None"
      then obtain r where "waitForJob_loop env jobid verbose ?w0 = Some r"
        by (auto simp: waitForJob_def)
      from loop_some_stops [OF this] obtain k where
        "\<forall>d s. poll env jobid ?w0 k = Inr d \<longrightarrow> job_status env d = Inr s \<longrightarrow> terminal s"
        by blast
      then have "\<forall>d s. poll env jobid w k = Inr d \<longrightarrow> job_status env d = Inr s \<longrightarrow> terminal s"
        using poll_log [OF same(1)] by simp
      with h show False by blast
    qed
  }
qed

lemmas demo_eval =
  getJobStatus_def call_eq demo_env_simps status_server_def reply_json_def loads_content_def
  status_docs_def job_status_def status_request_def ustr_def str_int_def digits.simps

theorem waitForJob_first_terminal_poll_witness:
  "(\<exists>w'. waitForJob (demo_env (Some (ustr ''tok'')) (status_server [1, 2, 2, 4] 4) status_docs)
            (PInt 7) True demo_world
          = Some (Inr (PDict [(ustr ''Status'', PInt 4)]), w')
        \<and> length (net_log w') = 4 \<and> slept w' = [2, 2, 2])
   \<and> waitForJob (demo_env (Some (ustr ''tok'')) (status_server [] 1) status_docs)
        (PInt 7) True demo_world = None"
proof -
  let ?E1 = "demo_env (Some (ustr ''tok'')) (status_server [1, 2, 2, 4] 4) status_docs"
  let ?E2 = "demo_env (Some (ustr ''tok'')) (status_server [] 1) status_docs"
  let ?s = "\<lambda>k::nat. if k < 4 then [1, 2, 2, 4::int] ! k else 4"
  let ?d = "\<lambda>k::nat. PDict [(ustr ''Status'', PInt (if k < 4 then [1, 2, 2, 4::int] ! k else 4))]"
  define n where "n = Suc (Suc (Suc 0))"
  have polls: "\<forall>k\<le>n. poll ?E1 (PInt 7) demo_world k = Inr (?d k)
                 \<and> job_status ?E1 (?d k) = Inr (?s k)"
    by (simp add: n_def le_Suc_eq all_conj_distrib poll_def demo_eval demo_world_def)
  have tm: "terminal (?s n)" "\<forall>k<n. \<not> terminal (?s k)"
    by (simp_all add: n_def terminal_def less_Suc_eq all_conj_distrib)
  have pending: "\<forall>k. poll ?E2 (PInt 7) demo_world k = Inr (PDict [(ustr ''Status'', PInt 1)])
                   \<and> job_status ?E2 (PDict [(ustr ''Status'', PInt 1)]) = Inr 1
                   \<and> \<not> terminal 1"
    by (simp add: poll_def demo_eval terminal_def)
  from waitForJob_first_terminal_poll [of n ?E1 "PInt 7" demo_world ?d ?s True] polls tm
  obtain w' where
    "waitForJob ?E1 (PInt 7) True demo_world = Some (Inr (?d n), w')"
    "length (net_log w') = length (net_log demo_world) + Suc n"
    "slept w' = slept demo_world @ replicate n 2"
    by blast
  then have first: "\<exists>w'. waitForJob ?E1 (PInt 7) True demo_world
          = Some (Inr (PDict [(ustr ''Status'', PInt 4)]), w')
        \<and> length (net_log w') = 4 \<and> slept w' = [2, 2, 2]"
    by (simp add: n_def demo_world_def)
  from waitForJob_first_terminal_poll
         [of _ ?E2 "PInt 7" demo_world "\<lambda>k. PDict [(ustr ''Status'', PInt 1)]" "\<lambda>k. 1" True]
       pending
  have "waitForJob ?E2 (PInt 7) True demo_world = None" by blast
  with first show ?thesis by blast
qed

text \<open>
  C8. For every job id, world and server, \<open>waitForJob\<close> called with \<^verbatim>\<open>verbose=True\<close> and with
  \<^verbatim>\<open>verbose=False\<close> either both never return or both return, with the same outcome (the same
  status record, or the same exception).
\<close>

theorem waitForJob_verbose_same_result:
  "map_option fst (waitForJob env jobid True w) = map_option fst (waitForJob env jobid False w)"
proof -
  let ?wT = "if True then print waitingStr w else w" and ?wF = "if False then print waitingStr w else w"
  have same: "net_log ?wF = net_log ?wT" "net_log ?wT = net_log ?wF" by (simp_all add: print_def)
  show ?thesis
  proof (cases "waitForJob_loop env jobid True ?wT")
    case None
    have "waitForJob_loop env jobid False ?wF = None"
    proof (rule ccontr)
      assume "waitForJob_loop env jobid False ?wF \<noteq> None"
      then obtain r where "waitForJob_loop env jobid False ?wF = Some r" by blast
      from loop_verbose_irrelevant [OF this same(2), of True] None show False by simp
    qed
    with None show ?thesis by (simp add: waitForJob_def)
  next
    case (Some r)
    from loop_verbose_irrelevant [OF Some same(1), of False] obtain r' where
      "waitForJob_loop env jobid False ?wF = Some r'" "fst r' = fst r" by blast
    with Some show ?thesis by (simp add: waitForJob_def)
  qed
qed

subsection \<open>Responses other than 200\<close>

lemma http_failure_reports: "reports (Inl (http_failure msg r)) r"
proof (cases "utf8_decode (content r)")
  case None
  then show ?thesis by (simp add: reports_def http_failure_def)
next
  case (Some t)
  let ?c = "str_int (status_code r)" and ?sep = "ustr '':\<newline>''"
  have "sublist ?c (msg @ ?c @ ?sep @ t)"
    unfolding sublist_def by (rule exI [of _ msg], rule exI [of _ "?sep @ t"]) simp
  moreover have "sublist t (msg @ ?c @ ?sep @ t)"
    unfolding sublist_def by (rule exI [of _ "msg @ ?c @ ?sep"], rule exI [of _ "[]"]) simp
  ultimately show ?thesis using Some by (simp add: reports_def http_failure_def)
qed

lemma getTables_reports:
  "answered env w (getTables env context w) rq r \<Longrightarrow> status_code r \<noteq> 200
   \<Longrightarrow> reports (fst (getTables env context w)) r"
  by (cases "getToken env")
     (auto simp: answered_def getTables_def call_eq http_failure_reports
           split: if_splits sum.splits)

lemma getJobStatus_reports:
  "answered env w (getJobStatus env jobid w) rq r \<Longrightarrow> status_code r \<noteq> 200
   \<Longrightarrow> reports (fst (getJobStatus env jobid w)) r"
  by (cases "getToken env")
     (auto simp: answered_def getJobStatus_def call_eq http_failure_reports
           split: if_splits sum.splits)

lemma uploadCSVDataToTable_reports:
  "answered env w (uploadCSVDataToTable env CVSdata tableName context w) rq r
   \<Longrightarrow> status_code r \<noteq> 200
   \<Longrightarrow> reports (fst (uploadCSVDataToTable env CVSdata tableName context w)) r"
  by (cases "getToken env")
     (auto simp: answered_def uploadCSVDataToTable_def call_eq http_failure_reports
           split: if_splits sum.splits)

lemma getSchemaName_reports:
  "answered env w (getSchemaName env w) rq r \<Longrightarrow> status_code r \<noteq> 200
   \<Longrightarrow> reports (fst (getSchemaName env w)) r"
  by (cases "getToken env")
     (auto simp: answered_def getSchemaName_def call_eq http_failure_reports
           split: if_splits sum.splits)

lemma submitJob_reports:
  "answered env w (submitJob env sql context w) rq r \<Longrightarrow> status_code r \<noteq> 200
   \<Longrightarrow> reports (fst (submitJob env sql context w)) r"
  by (cases "getToken env")
     (auto simp: answered_def submitJob_def call_eq http_failure_reports
           split: if_splits sum.splits option.splits)

lemma executeQuery_reports:
  "answered env w (executeQuery env sql context format w) rq r \<Longrightarrow> status_code r \<noteq> 200
   \<Longrightarrow> reports (fst (executeQuery env sql context format w)) r"
  by (auto simp: answered_def executeQuery_def call_eq http_failure_reports
           split: if_splits sum.splits option.splits)

lemma reports_Inl: "reports res r \<Longrightarrow> \<exists>e. res = Inl e \<and> (\<forall>x. res \<noteq> Inr x)"
  by (cases res) (simp_all add: reports_def)

lemma getFitsFileFromQuery_reports:
  assumes "answered env w (getFitsFileFromQuery env fileName queryString context w) rq r"
    and "status_code r \<noteq> 200"
  shows "reports (fst (getFitsFileFromQuery env fileName queryString context w)) r"
proof -
  obtain res w1 where q: "executeQuery env queryString context (ustr ''fits'') w = (res, w1)"
    by (cases "executeQuery env queryString context (ustr ''fits'') w")
  have log: "net_log (snd (getFitsFileFromQuery env fileName queryString context w)) = net_log w1"
    using q
    by (simp add: getFitsFileFromQuery_def open_wb_def file_write_def
        split: sum.split option.split pydata.split)
  with assms(1) q have "answered env w (executeQuery env queryString context (ustr ''fits'') w) rq r"
    by (simp add: answered_def)
  from executeQuery_reports [OF this assms(2)] q have rep: "reports res r" by simp
  then obtain e where "res = Inl e" using reports_Inl by blast
  with q rep show ?thesis
    by (simp add: getFitsFileFromQuery_def reports_def)
qed

lemma getPandasDataFrameFromQuery_reports:
  assumes "answered env w (getPandasDataFrameFromQuery env queryString context index_col w) rq r"
    and "status_code r \<noteq> 200"
  shows "reports (fst (getPandasDataFrameFromQuery env queryString context index_col w)) r"
proof -
  obtain res w1 where q: "executeQuery env queryString context (ustr ''readable'') w = (res, w1)"
    by (cases "executeQuery env queryString context (ustr ''readable'') w")
  have log: "net_log (snd (getPandasDataFrameFromQuery env queryString context index_col w))
               = net_log w1"
    using q by (simp add: getPandasDataFrameFromQuery_def split: sum.split)
  with assms(1) q
  have "answered env w (executeQuery env queryString context (ustr ''readable'') w) rq r"
    by (simp add: answered_def)
  from executeQuery_reports [OF this assms(2)] q have rep: "reports res r" by simp
  then obtain e where "res = Inl e" using reports_Inl by blast
  with q rep show ?thesis
    by (simp add: getPandasDataFrameFromQuery_def reports_def)
qed

lemma getNumpyArrayFromQuery_reports:
  assumes "answered env w (getNumpyArrayFromQuery env queryString context w) rq r"
    and "status_code r \<noteq> 200"
  shows "reports (fst (getNumpyArrayFromQuery env queryString context w)) r"
proof -
  obtain res w1 where q: "getPandasDataFrameFromQuery env queryString context None w = (res, w1)"
    by (cases "getPandasDataFrameFromQuery env queryString context None w")
  have log: "net_log (snd (getNumpyArrayFromQuery env queryString context w)) = net_log w1"
    using q by (simp add: getNumpyArrayFromQuery_def split: sum.split)
  with assms(1) q
  have "answered env w (getPandasDataFrameFromQuery env queryString context None w) rq r"
    by (simp add: answered_def)
  from getPandasDataFrameFromQuery_reports [OF this assms(2)] q have rep: "reports res r" by simp
  then obtain e where "res = Inl e" using reports_Inl by blast
  with q rep show ?thesis
    by (simp add: getNumpyArrayFromQuery_def reports_def)
qed

lemma uploadPandasDataFrameToTable_reports:
  assumes "answered env w (uploadPandasDataFrameToTable env dataFrame tableName context w) rq r"
    and "status_code r \<noteq> 200"
  shows "reports (fst (uploadPandasDataFrameToTable env dataFrame tableName context w)) r"
proof -
  define ix where "ix = index_at (frame_objs w dataFrame)"
  define w1 where "w1 = (if ix_name (indexes w ix) = PStr [] \<or> ix_name (indexes w ix) = PNone
                then w\<lparr>indexes := (indexes w)
                         (ix := (indexes w ix)\<lparr>ix_name := PStr (ustr ''index'')\<rparr>)\<rparr>
                else w)"
  have log1: "net_log w1 = net_log w" by (simp add: w1_def)
  have up: "uploadPandasDataFrameToTable env dataFrame tableName context w =
        (case utf8_encode (pandas_to_csv env (frame_of w1 dataFrame)) of
           None \<Rightarrow> (Inl UnicodeEncodeError, w1)
         | Some sio \<Rightarrow> uploadCSVDataToTable env sio tableName context w1)"
    by (simp only: uploadPandasDataFrameToTable_def w1_def ix_def Let_def)
  show ?thesis
  proof (cases "utf8_encode (pandas_to_csv env (frame_of w1 dataFrame))")
    case None
    with assms(1) up log1 show ?thesis by (simp add: answered_def)
  next
    case (Some sio)
    with assms(1) up log1
    have "answered env w1 (uploadCSVDataToTable env sio tableName context w1) rq r"
      by (simp add: answered_def)
    from uploadCSVDataToTable_reports [OF this assms(2)] up Some show ?thesis by simp
  qed
qed



lemmas op_eval =
  getSchemaName_def getTables_def executeQuery_def submitJob_def getJobStatus_def
  uploadCSVDataToTable_def acceptHeader_of_def query_body_def query_result_def
  call_eq http_failure_def demo_env_simps reply_def answered_def reports_def
  demo_world_def ustr_def str_int_def digits.simps

lemmas wit_eval =
  getSchemaName_def getTables_def executeQuery_def submitJob_def getJobStatus_def
  uploadCSVDataToTable_def getFitsFileFromQuery_def getPandasDataFrameFromQuery_def
  getNumpyArrayFromQuery_def uploadPandasDataFrameToTable_def frame_of_def demo_to_csv_def
  csv_line_def csv_quote_def csv_special_def
  acceptHeader_of_def query_body_def query_result_def
  call_eq demo_env_simps reply_def answered_def
  demo_world_def ustr_def str_int_def digits.simps



subsection \<open>The schema name\<close>

text \<open>
  C9 (as amended). \<open>getSchemaName\<close> fails with the "not logged in" exception, sending nothing,
  when the token is absent or empty. With a token and an identity, if the profile endpoint
  answers 200 with a JSON body whose \<^verbatim>\<open>WebServicesId\<close> is the integer \<open>n\<close>, the result is
  \<^verbatim>\<open>"wsid_"\<close> followed by the decimal digits of \<open>n\<close>; if it answers any other status the call
  fails, and the failure carries the status and the body whenever the body is valid UTF-8.
\<close>

theorem getSchemaName_result:
  "(getToken env = None \<or> getToken env = Some []
      \<longrightarrow> getSchemaName env w = (Inl not_logged_in, w))
   \<and> (getToken env = Some token \<and> token \<noteq> []
        \<and> getKeystoneUserWithToken env token = Inr uid
        \<and> server env (net_log w) (schema_request env token uid) = Inr r
      \<longrightarrow> (status_code r = 200 \<and> utf8_decode (content r) = Some body
             \<and> json_loads env body = Some j
             \<and> subscript_key j (ustr ''WebServicesId'') = Inr (PInt n)
           \<longrightarrow> getSchemaName env w
                 = (Inr (ustr ''wsid_'' @ str_int n),
                    w\<lparr>net_log := net_log w @ [schema_request env token uid]\<rparr>))
        \<and> (status_code r \<noteq> 200
           \<longrightarrow> reports (fst (getSchemaName env w)) r
               \<and> snd (getSchemaName env w)
                 = w\<lparr>net_log := net_log w @ [schema_request env token uid]\<rparr>))"
proof (intro conjI impI)
  assume "getToken env = None \<or> getToken env = Some []"
  then show "getSchemaName env w = (Inl not_logged_in, w)"
    by (auto simp: getSchemaName_def)
next
  assume a: "getToken env = Some token \<and> token \<noteq> []
        \<and> getKeystoneUserWithToken env token = Inr uid
        \<and> server env (net_log w) (schema_request env token uid) = Inr r"
  {
    assume "status_code r = 200 \<and> utf8_decode (content r) = Some body
             \<and> json_loads env body = Some j
             \<and> subscript_key j (ustr ''WebServicesId'') = Inr (PInt n)"
    with a show "getSchemaName env w
                 = (Inr (ustr ''wsid_'' @ str_int n),
                    w\<lparr>net_log := net_log w @ [schema_request env token uid]\<rparr>)"
      by (simp add: getSchemaName_def call_eq loads_content_def)
  }
  {
    assume ne: "status_code r \<noteq> 200"
    with a show sn: "snd (getSchemaName env w)
                 = w\<lparr>net_log := net_log w @ [schema_request env token uid]\<rparr>"
      by (simp add: getSchemaName_def call_eq)
    with a have "answered env w (getSchemaName env w) (schema_request env token uid) r"
      by (simp add: answered_def)
    from getSchemaName_reports [OF this ne] show "reports (fst (getSchemaName env w)) r" .
  }
qed

theorem getSchemaName_result_witness:
  "getSchemaName (demo_env None (\<lambda>log rq. reply 200 ''x'') []) demo_world
     = (Inl not_logged_in, demo_world)
   \<and> fst (getSchemaName
        (demo_env (Some (ustr ''tok''))
           (\<lambda>log rq. reply_json 200 (PDict [(ustr ''WebServicesId'', PInt 1234)]))
           [PDict [(ustr ''WebServicesId'', PInt 1234)]])
        demo_world) = Inr (ustr ''wsid_1234'')
   \<and> reports (fst (getSchemaName (demo_env (Some (ustr ''tok'')) (\<lambda>log rq. reply 404 ''no such user'') [])
                     demo_world))
        \<lparr>status_code = 404, content = map of_char ''no such user''\<rparr>
   \<and> fst (getSchemaName (demo_env (Some (ustr ''tok'')) (\<lambda>log rq. reply 404 ''no such user'') [])
                     demo_world)
     = Inl (Exception (ustr ''Error when getting schema name. Http Response from CasJobs API returned status code 404:\<newline>no such user''))"
proof -
  let ?E0 = "demo_env None (\<lambda>log rq. reply 200 ''x'') []"
  let ?J = "PDict [(ustr ''WebServicesId'', PInt 1234)]"
  let ?E1 = "demo_env (Some (ustr ''tok'')) (\<lambda>log rq. reply_json 200 ?J) [?J]"
  let ?E2 = "demo_env (Some (ustr ''tok'')) (\<lambda>log rq. reply 404 ''no such user'') []"
  let ?R1 = "\<lparr>status_code = 200, content = map of_nat (json_text ?J)\<rparr>"
  let ?R2 = "\<lparr>status_code = 404, content = map of_char ''no such user''\<rparr>"
  have h0: "getToken ?E0 = None \<or> getToken ?E0 = Some []" by (simp add: demo_env_simps)
  from getSchemaName_result [of ?E0 demo_world] h0
  have c0: "getSchemaName ?E0 demo_world = (Inl not_logged_in, demo_world)" by blast
  have h1: "getToken ?E1 = Some (ustr ''tok'') \<and> ustr ''tok'' \<noteq> []
        \<and> getKeystoneUserWithToken ?E1 (ustr ''tok'') = Inr (ustr ''u1'')
        \<and> server ?E1 (net_log demo_world) (schema_request ?E1 (ustr ''tok'') (ustr ''u1'')) = Inr ?R1"
    by (simp add: demo_env_simps reply_json_def ustr_def)
  have h1': "status_code ?R1 = 200 \<and> utf8_decode (content ?R1) = Some (json_text ?J)
             \<and> json_loads ?E1 (json_text ?J) = Some ?J
             \<and> subscript_key ?J (ustr ''WebServicesId'') = Inr (PInt 1234)"
    by (simp add: demo_env_simps ustr_def str_int_def digits.simps)
  from getSchemaName_result [of ?E1 demo_world "ustr ''tok''" "ustr ''u1''" ?R1 "json_text ?J" ?J 1234]
    h1 h1'
  have "fst (getSchemaName ?E1 demo_world) = Inr (ustr ''wsid_'' @ str_int 1234)" by simp
  then have c1: "fst (getSchemaName ?E1 demo_world) = Inr (ustr ''wsid_1234'')"
    by (simp add: ustr_def str_int_def digits.simps)
  have h2: "getToken ?E2 = Some (ustr ''tok'') \<and> ustr ''tok'' \<noteq> []
        \<and> getKeystoneUserWithToken ?E2 (ustr ''tok'') = Inr (ustr ''u1'')
        \<and> server ?E2 (net_log demo_world) (schema_request ?E2 (ustr ''tok'') (ustr ''u1'')) = Inr ?R2"
    by (simp add: demo_env_simps reply_def ustr_def)
  from getSchemaName_result [of ?E2 demo_world "ustr ''tok''" "ustr ''u1''" ?R2] h2
  have c2: "reports (fst (getSchemaName ?E2 demo_world)) ?R2" by simp
  have c3: "fst (getSchemaName ?E2 demo_world)
     = Inl (Exception (ustr ''Error when getting schema name. Http Response from CasJobs API returned status code 404:\<newline>no such user''))"
    by (simp add: op_eval schema_request_def)
  from c0 c1 c2 c3 show ?thesis by blast
qed

text \<open>
  C9 as stated fails in its last part when the body of the error response is not UTF-8: the
  failure is then a \<^verbatim>\<open>UnicodeDecodeError\<close>, which carries neither status nor body.
\<close>

theorem getSchemaName_undecodable_error_body:
  "server (demo_env (Some (ustr ''tok'')) (\<lambda>log rq. Inr \<lparr>status_code = 404, content = [0xC0]\<rparr>) [])
      (net_log demo_world)
      (schema_request (demo_env (Some (ustr ''tok''))
                         (\<lambda>log rq. Inr \<lparr>status_code = 404, content = [0xC0]\<rparr>) [])
         (ustr ''tok'') (ustr ''u1''))
     = Inr \<lparr>status_code = 404, content = [0xC0]\<rparr>
   \<and> getSchemaName (demo_env (Some (ustr ''tok''))
                      (\<lambda>log rq. Inr \<lparr>status_code = 404, content = [0xC0]\<rparr>) []) demo_world
     = (Inl UnicodeDecodeError,
        demo_world\<lparr>net_log := [schema_request (demo_env (Some (ustr ''tok''))
                         (\<lambda>log rq. Inr \<lparr>status_code = 404, content = [0xC0]\<rparr>) [])
                         (ustr ''tok'') (ustr ''u1'')]\<rparr>)"
  by (simp add: op_eval)

subsection \<open>Decoding the result of a query\<close>




subsection \<open>Every operation fails on a response other than 200\<close>

lemma loop_fails:
  assumes "\<forall>k<n. poll env jobid w k = Inr (d k) \<and> job_status env (d k) = Inr (s k)
              \<and> \<not> terminal (s k)"
    and "poll env jobid w n = Inl e"
  shows "\<exists>w'. waitForJob_loop env jobid verbose w = Some (Inl e, w')
             \<and> net_log w' = net_log (poll_world env jobid w (Suc n))"
  using assms
proof (induction n arbitrary: w d s)
  case 0
  obtain res w2 where
    g: "getJobStatus env jobid (if verbose then print waitingStr (print backStr w) else w)
          = (res, w2)"
    by (cases "getJobStatus env jobid (if verbose then print waitingStr (print backStr w) else w)")
  note fp = first_poll [OF g]
  have "waitForJob_loop env jobid verbose w = Some (Inl e, w2)"
    using fp(1) 0(2) by (simp add: loop_step [OF g])
  moreover have "net_log w2 = net_log (poll_world env jobid w (Suc 0))"
    using fp(2) by simp
  ultimately show ?case by blast
next
  case (Suc n)
  obtain res w2 where
    g: "getJobStatus env jobid (if verbose then print waitingStr (print backStr w) else w)
          = (res, w2)"
    by (cases "getJobStatus env jobid (if verbose then print waitingStr (print backStr w) else w)")
  from Suc.prems(1) have p0: "poll env jobid w 0 = Inr (d 0)" "job_status env (d 0) = Inr (s 0)"
    and nt: "\<not> terminal (s 0)" by auto
  note fp = first_poll [OF g]
  let ?v = "sleep 2 w2"
  have vlog: "net_log ?v = net_log (snd (getJobStatus env jobid w))"
    using fp(2) by (simp add: sleep_def)
  have step: "waitForJob_loop env jobid verbose w = waitForJob_loop env jobid verbose ?v"
    using fp(1) p0 nt by (simp add: loop_step [OF g])
  have polls: "\<forall>k<n. poll env jobid ?v k = Inr ((d \<circ> Suc) k)
                 \<and> job_status env ((d \<circ> Suc) k) = Inr ((s \<circ> Suc) k)
                 \<and> \<not> terminal ((s \<circ> Suc) k)"
    using Suc.prems(1) poll_shift [OF vlog] by simp
  have last: "poll env jobid ?v n = Inl e"
    using Suc.prems(2) poll_shift [OF vlog] by simp
  from Suc.IH [OF polls last] obtain w' where
    r: "waitForJob_loop env jobid verbose ?v = Some (Inl e, w')"
    and l: "net_log w' = net_log (poll_world env jobid ?v (Suc n))" by blast
  have "net_log w' = net_log (poll_world env jobid w (Suc (Suc n)))"
    using l poll_world_shift_log [OF vlog, of "Suc n"] by simp
  with step r show ?case by simp
qed

lemma waitForJob_fails:
  assumes "\<forall>k<n. poll env jobid w k = Inr (d k) \<and> job_status env (d k) = Inr (s k)
              \<and> \<not> terminal (s k)"
    and "answered env (poll_world env jobid w n)
           (getJobStatus env jobid (poll_world env jobid w n)) rq r"
    and "status_code r \<noteq> 200"
  shows "\<exists>res w'. waitForJob env jobid verbose w = Some (res, w') \<and> reports res r"
proof -
  let ?w0 = "if verbose then print waitingStr w else w"
  have same: "net_log ?w0 = net_log w" by (simp add: print_def)
  from getJobStatus_reports [OF assms(2,3)]
  have rep: "reports (poll env jobid w n) r" by (simp add: poll_def)
  then obtain e where e: "poll env jobid w n = Inl e" using reports_Inl by blast
  have polls: "\<forall>k<n. poll env jobid ?w0 k = Inr (d k) \<and> job_status env (d k) = Inr (s k)
              \<and> \<not> terminal (s k)"
    using assms(1) poll_log [OF same] by simp
  have last: "poll env jobid ?w0 n = Inl e" using e poll_log [OF same] by simp
  from loop_fails [OF polls last, of verbose] obtain w' where
    "waitForJob_loop env jobid verbose ?w0 = Some (Inl e, w')" by blast
  then have "waitForJob env jobid verbose w = Some (Inl e, w')" by (simp add: waitForJob_def)
  moreover have "reports (Inl e :: error + pyval) r" using rep e by simp
  ultimately show ?thesis by blast
qed

text \<open>
  C5 (as amended). Whenever an operation of the module has sent a request that the server
  answers with a status other than 200, the operation fails: when the body of that response
  is valid UTF-8, with an \<^verbatim>\<open>Exception\<close> whose message contains the decimal status code and
  the decoded body, and otherwise with the \<^verbatim>\<open>UnicodeDecodeError\<close> of the decoding. This holds
  for the six operations that send a request themselves and for the four that go through
  \<open>executeQuery\<close> or \<open>uploadCSVDataToTable\<close>. \<open>waitForJob\<close> returns with such a failure at the
  first poll that is answered so, after any number of polls that found the job pending.
\<close>

theorem non_200_response_reported:
  assumes "status_code r \<noteq> 200"
  shows "(answered env w (getSchemaName env w) rq r \<longrightarrow> reports (fst (getSchemaName env w)) r)
    \<and> (answered env w (getTables env context w) rq r
          \<longrightarrow> reports (fst (getTables env context w)) r)
    \<and> (answered env w (executeQuery env sql context format w) rq r
          \<longrightarrow> reports (fst (executeQuery env sql context format w)) r)
    \<and> (answered env w (submitJob env sql context w) rq r
          \<longrightarrow> reports (fst (submitJob env sql context w)) r)
    \<and> (answered env w (getJobStatus env jobid w) rq r
          \<longrightarrow> reports (fst (getJobStatus env jobid w)) r)
    \<and> (answered env w (uploadCSVDataToTable env CVSdata tableName context w) rq r
          \<longrightarrow> reports (fst (uploadCSVDataToTable env CVSdata tableName context w)) r)
    \<and> (answered env w (getFitsFileFromQuery env fileName sql context w) rq r
          \<longrightarrow> reports (fst (getFitsFileFromQuery env fileName sql context w)) r)
    \<and> (answered env w (getPandasDataFrameFromQuery env sql context index_col w) rq r
          \<longrightarrow> reports (fst (getPandasDataFrameFromQuery env sql context index_col w)) r)
    \<and> (answered env w (getNumpyArrayFromQuery env sql context w) rq r
          \<longrightarrow> reports (fst (getNumpyArrayFromQuery env sql context w)) r)
    \<and> (answered env w (uploadPandasDataFrameToTable env dataFrame tableName context w) rq r
          \<longrightarrow> reports (fst (uploadPandasDataFrameToTable env dataFrame tableName context w)) r)
    \<and> ((\<forall>k<n. poll env jobid w k = Inr (d k) \<and> job_status env (d k) = Inr (s k)
                 \<and> \<not> terminal (s k))
          \<and> answered env (poll_world env jobid w n)
                (getJobStatus env jobid (poll_world env jobid w n)) rq r
          \<longrightarrow> (\<exists>res w'. waitForJob env jobid verbose w = Some (res, w') \<and> reports res r))"
proof (intro conjI impI)
  assume h: "(\<forall>k<n. poll env jobid w k = Inr (d k) \<and> job_status env (d k) = Inr (s k)
                 \<and> \<not> terminal (s k))
          \<and> answered env (poll_world env jobid w n)
                (getJobStatus env jobid (poll_world env jobid w n)) rq r"
  then show "\<exists>res w'. waitForJob env jobid verbose w = Some (res, w') \<and> reports res r"
    using waitForJob_fails assms by blast
qed (rule getSchemaName_reports getTables_reports executeQuery_reports submitJob_reports
    getJobStatus_reports uploadCSVDataToTable_reports getFitsFileFromQuery_reports
    getPandasDataFrameFromQuery_reports getNumpyArrayFromQuery_reports
    uploadPandasDataFrameToTable_reports, assumption, rule assms)+

text \<open>
  C5 as stated fails when the body of the response is not UTF-8: \<^verbatim>\<open>content.decode()\<close> raises
  while the message is being built, and the failure is a \<^verbatim>\<open>UnicodeDecodeError\<close> that carries
  neither the status code nor the body.
\<close>

theorem undecodable_error_body:
  "answered (demo_env (Some (ustr ''tok'')) (\<lambda>log rq. Inr \<lparr>status_code = 500, content = [0xFF]\<rparr>) [])
      demo_world
      (getTables (demo_env (Some (ustr ''tok''))
                    (\<lambda>log rq. Inr \<lparr>status_code = 500, content = [0xFF]\<rparr>) [])
         (ustr ''MyDB'') demo_world)
      (tables_request (demo_env (Some (ustr ''tok''))
                    (\<lambda>log rq. Inr \<lparr>status_code = 500, content = [0xFF]\<rparr>) [])
         (ustr ''tok'') (ustr ''MyDB''))
      \<lparr>status_code = 500, content = [0xFF]\<rparr>
   \<and> fst (getTables (demo_env (Some (ustr ''tok''))
                    (\<lambda>log rq. Inr \<lparr>status_code = 500, content = [0xFF]\<rparr>) [])
         (ustr ''MyDB'') demo_world) = Inl UnicodeDecodeError"
  by (simp add: op_eval)

theorem non_200_response_reported_witness:
  "status_code boom \<noteq> 200
   \<and> (\<exists>rq. answered boom_env demo_world (getSchemaName boom_env demo_world) rq boom)
   \<and> reports (fst (getSchemaName boom_env demo_world)) boom
   \<and> (\<exists>rq. answered boom_env demo_world (getTables boom_env (ustr ''MyDB'') demo_world) rq boom)
   \<and> reports (fst (getTables boom_env (ustr ''MyDB'') demo_world)) boom
   \<and> (\<exists>rq. answered boom_env demo_world (executeQuery boom_env (ustr ''select 1'') (ustr ''MyDB'') (ustr ''csv'') demo_world) rq boom)
   \<and> reports (fst (executeQuery boom_env (ustr ''select 1'') (ustr ''MyDB'') (ustr ''csv'') demo_world)) boom
   \<and> (\<exists>rq. answered boom_env demo_world (submitJob boom_env (ustr ''select 1'') (ustr ''MyDB'') demo_world) rq boom)
   \<and> reports (fst (submitJob boom_env (ustr ''select 1'') (ustr ''MyDB'') demo_world)) boom
   \<and> (\<exists>rq. answered boom_env demo_world (getJobStatus boom_env (PInt 7) demo_world) rq boom)
   \<and> reports (fst (getJobStatus boom_env (PInt 7) demo_world)) boom
   \<and> (\<exists>rq. answered boom_env demo_world (uploadCSVDataToTable boom_env [] (ustr ''t'') (ustr ''MyDB'') demo_world) rq boom)
   \<and> reports (fst (uploadCSVDataToTable boom_env [] (ustr ''t'') (ustr ''MyDB'') demo_world)) boom
   \<and> (\<exists>rq. answered boom_env demo_world (getFitsFileFromQuery boom_env (ustr ''out.fits'') (ustr ''select 1'') (ustr ''MyDB'') demo_world) rq boom)
   \<and> reports (fst (getFitsFileFromQuery boom_env (ustr ''out.fits'') (ustr ''select 1'') (ustr ''MyDB'') demo_world)) boom
   \<and> (\<exists>rq. answered boom_env demo_world (getPandasDataFrameFromQuery boom_env (ustr ''select 1'') (ustr ''MyDB'') None demo_world) rq boom)
   \<and> reports (fst (getPandasDataFrameFromQuery boom_env (ustr ''select 1'') (ustr ''MyDB'') None demo_world)) boom
   \<and> (\<exists>rq. answered boom_env demo_world (getNumpyArrayFromQuery boom_env (ustr ''select 1'') (ustr ''MyDB'') demo_world) rq boom)
   \<and> reports (fst (getNumpyArrayFromQuery boom_env (ustr ''select 1'') (ustr ''MyDB'') demo_world)) boom
   \<and> (\<exists>rq. answered boom_env demo_world (uploadPandasDataFrameToTable boom_env 0 (ustr ''t'') (ustr ''MyDB'') demo_world) rq boom)
   \<and> reports (fst (uploadPandasDataFrameToTable boom_env 0 (ustr ''t'') (ustr ''MyDB'') demo_world)) boom
   \<and> poll flaky_env (PInt 7) demo_world 0 = Inr (PDict [(ustr ''Status'', PInt 1)])
   \<and> poll flaky_env (PInt 7) demo_world (Suc 0) = Inr (PDict [(ustr ''Status'', PInt 1)])
   \<and> job_status flaky_env (PDict [(ustr ''Status'', PInt 1)]) = Inr 1
   \<and> \<not> terminal 1
   \<and> (\<exists>rq. answered flaky_env (poll_world flaky_env (PInt 7) demo_world (Suc (Suc 0)))
          (getJobStatus flaky_env (PInt 7) (poll_world flaky_env (PInt 7) demo_world (Suc (Suc 0))))
          rq boom)
   \<and> (\<exists>res w'. waitForJob flaky_env (PInt 7) True demo_world = Some (res, w')
         \<and> reports res boom)"
proof -
  have ne: "status_code boom \<noteq> 200" by (simp add: boom_def)
  have a1: "\<exists>rq. answered boom_env demo_world (getSchemaName boom_env demo_world) rq boom"
    by (simp add: wit_eval boom_env_def boom_def)
  then obtain rqa1 where "answered boom_env demo_world (getSchemaName boom_env demo_world) rqa1 boom" by blast
  with non_200_response_reported [OF ne, of boom_env demo_world rqa1]
  have ra1: "reports (fst (getSchemaName boom_env demo_world)) boom" by blast
  have a2: "\<exists>rq. answered boom_env demo_world (getTables boom_env (ustr ''MyDB'') demo_world) rq boom"
    by (simp add: wit_eval boom_env_def boom_def)
  then obtain rqa2 where "answered boom_env demo_world (getTables boom_env (ustr ''MyDB'') demo_world) rqa2 boom" by blast
  with non_200_response_reported [OF ne, of boom_env demo_world rqa2]
  have ra2: "reports (fst (getTables boom_env (ustr ''MyDB'') demo_world)) boom" by blast
  have a3: "\<exists>rq. answered boom_env demo_world (executeQuery boom_env (ustr ''select 1'') (ustr ''MyDB'') (ustr ''csv'') demo_world) rq boom"
    by (simp add: wit_eval boom_env_def boom_def)
  then obtain rqa3 where "answered boom_env demo_world (executeQuery boom_env (ustr ''select 1'') (ustr ''MyDB'') (ustr ''csv'') demo_world) rqa3 boom" by blast
  with non_200_response_reported [OF ne, of boom_env demo_world rqa3]
  have ra3: "reports (fst (executeQuery boom_env (ustr ''select 1'') (ustr ''MyDB'') (ustr ''csv'') demo_world)) boom" by blast
  have a4: "\<exists>rq. answered boom_env demo_world (submitJob boom_env (ustr ''select 1'') (ustr ''MyDB'') demo_world) rq boom"
    by (simp add: wit_eval boom_env_def boom_def)
  then obtain rqa4 where "answered boom_env demo_world (submitJob boom_env (ustr ''select 1'') (ustr ''MyDB'') demo_world) rqa4 boom" by blast
  with non_200_response_reported [OF ne, of boom_env demo_world rqa4]
  have ra4: "reports (fst (submitJob boom_env (ustr ''select 1'') (ustr ''MyDB'') demo_world)) boom" by blast
  have a5: "\<exists>rq. answered boom_env demo_world (getJobStatus boom_env (PInt 7) demo_world) rq boom"
    by (simp add: wit_eval boom_env_def boom_def)
  then obtain rqa5 where "answered boom_env demo_world (getJobStatus boom_env (PInt 7) demo_world) rqa5 boom" by blast
  with non_200_response_reported [OF ne, of boom_env demo_world rqa5]
  have ra5: "reports (fst (getJobStatus boom_env (PInt 7) demo_world)) boom" by blast
  have a6: "\<exists>rq. answered boom_env demo_world (uploadCSVDataToTable boom_env [] (ustr ''t'') (ustr ''MyDB'') demo_world) rq boom"
    by (simp add: wit_eval boom_env_def boom_def)
  then obtain rqa6 where "answered boom_env demo_world (uploadCSVDataToTable boom_env [] (ustr ''t'') (ustr ''MyDB'') demo_world) rqa6 boom" by blast
  with non_200_response_reported [OF ne, of boom_env demo_world rqa6]
  have ra6: "reports (fst (uploadCSVDataToTable boom_env [] (ustr ''t'') (ustr ''MyDB'') demo_world)) boom" by blast
  have a7: "\<exists>rq. answered boom_env demo_world (getFitsFileFromQuery boom_env (ustr ''out.fits'') (ustr ''select 1'') (ustr ''MyDB'') demo_world) rq boom"
    by (simp add: wit_eval boom_env_def boom_def)
  then obtain rqa7 where "answered boom_env demo_world (getFitsFileFromQuery boom_env (ustr ''out.fits'') (ustr ''select 1'') (ustr ''MyDB'') demo_world) rqa7 boom" by blast
  with non_200_response_reported [OF ne, of boom_env demo_world rqa7]
  have ra7: "reports (fst (getFitsFileFromQuery boom_env (ustr ''out.fits'') (ustr ''select 1'') (ustr ''MyDB'') demo_world)) boom" by blast
  have a8: "\<exists>rq. answered boom_env demo_world (getPandasDataFrameFromQuery boom_env (ustr ''select 1'') (ustr ''MyDB'') None demo_world) rq boom"
    by (simp add: wit_eval boom_env_def boom_def)
  then obtain rqa8 where "answered boom_env demo_world (getPandasDataFrameFromQuery boom_env (ustr ''select 1'') (ustr ''MyDB'') None demo_world) rqa8 boom" by blast
  with non_200_response_reported [OF ne, of boom_env demo_world rqa8]
  have ra8: "reports (fst (getPandasDataFrameFromQuery boom_env (ustr ''select 1'') (ustr ''MyDB'') None demo_world)) boom" by blast
  have a9: "\<exists>rq. answered boom_env demo_world (getNumpyArrayFromQuery boom_env (ustr ''select 1'') (ustr ''MyDB'') demo_world) rq boom"
    by (simp add: wit_eval boom_env_def boom_def)
  then obtain rqa9 where "answered boom_env demo_world (getNumpyArrayFromQuery boom_env (ustr ''select 1'') (ustr ''MyDB'') demo_world) rqa9 boom" by blast
  with non_200_response_reported [OF ne, of boom_env demo_world rqa9]
  have ra9: "reports (fst (getNumpyArrayFromQuery boom_env (ustr ''select 1'') (ustr ''MyDB'') demo_world)) boom" by blast
  have a10: "\<exists>rq. answered boom_env demo_world (uploadPandasDataFrameToTable boom_env 0 (ustr ''t'') (ustr ''MyDB'') demo_world) rq boom"
    by (simp add: wit_eval boom_env_def boom_def)
  then obtain rqa10 where "answered boom_env demo_world (uploadPandasDataFrameToTable boom_env 0 (ustr ''t'') (ustr ''MyDB'') demo_world) rqa10 boom" by blast
  with non_200_response_reported [OF ne, of boom_env demo_world rqa10]
  have ra10: "reports (fst (uploadPandasDataFrameToTable boom_env 0 (ustr ''t'') (ustr ''MyDB'') demo_world)) boom" by blast
  have p0: "poll flaky_env (PInt 7) demo_world 0 = Inr (PDict [(ustr ''Status'', PInt 1)])"
    by (simp add: poll_def demo_eval flaky_env_def demo_world_def)
  have p1: "poll flaky_env (PInt 7) demo_world (Suc 0) = Inr (PDict [(ustr ''Status'', PInt 1)])"
    by (simp add: poll_def demo_eval flaky_env_def demo_world_def)
  have js: "job_status flaky_env (PDict [(ustr ''Status'', PInt 1)]) = Inr 1"
    by (simp add: demo_eval flaky_env_def)
  have nt: "\<not> terminal 1" by (simp add: terminal_def)
  have pend: "\<forall>k<Suc (Suc 0). poll flaky_env (PInt 7) demo_world k
                    = Inr (PDict [(ustr ''Status'', PInt 1)])
                 \<and> job_status flaky_env (PDict [(ustr ''Status'', PInt 1)]) = Inr 1
                 \<and> \<not> terminal 1"
    using p0 p1 js nt by (simp add: less_Suc_eq)
  have aw: "\<exists>rq. answered flaky_env (poll_world flaky_env (PInt 7) demo_world (Suc (Suc 0)))
          (getJobStatus flaky_env (PInt 7) (poll_world flaky_env (PInt 7) demo_world (Suc (Suc 0))))
          rq boom"
    by (simp add: answered_def demo_eval flaky_env_def demo_world_def)
  from aw obtain rq where "answered flaky_env (poll_world flaky_env (PInt 7) demo_world (Suc (Suc 0)))
          (getJobStatus flaky_env (PInt 7) (poll_world flaky_env (PInt 7) demo_world (Suc (Suc 0))))
          rq boom" by blast
  with non_200_response_reported
         [OF ne, where env = flaky_env and w = demo_world and rq = rq and jobid = "PInt 7"
            and verbose = True and n = "Suc (Suc 0)"
            and d = "\<lambda>k. PDict [(ustr ''Status'', PInt 1)]" and s = "\<lambda>k. 1"] pend
  have rw: "\<exists>res w'. waitForJob flaky_env (PInt 7) True demo_world = Some (res, w')
         \<and> reports res boom" by blast
  show ?thesis
    using ne a1 ra1 a2 ra2 a3 ra3 a4 ra4 a5 ra5 a6 ra6 a7 ra7 a8 ra8 a9 ra9 a10 ra10 p0 p1 js nt aw rw by (intro conjI) assumption+
qed

end
